theory Spec2Isabelle
  imports Complex_Main "HOL-Library.Word"
begin

unbundle bit_operations_syntax

section \<open>Python values and exceptions\<close>

text \<open>
  The module \<^verbatim>\<open>datasetinsights/visualization/plots.py\<close> is dynamically typed: \<^verbatim>\<open>add\<close>
  inspects the type and the truth value of its arguments. The arguments that are not the
  image are modelled as immediate Python values. A \<^verbatim>\<open>str\<close> is represented by its UTF-8
  byte sequence (one \<open>char\<close> per byte), a finite \<^verbatim>\<open>float\<close> by the rational it denotes, and
  \<open>PyObject b\<close> stands for an object of any other type (a list, a tuple, a dict) whose
  truth value is \<open>b\<close> and which \<^verbatim>\<open>int()\<close> rejects.
\<close>

datatype exn =
    TypeError string
  | ValueError string
  | OverflowError string
  | IndexError string
  | Cv2Error string

datatype pyfloat = Finite rat | PosInf | NegInf | NaN

datatype pyval =
    PyNone
  | PyBool bool
  | PyInt int
  | PyFloat pyfloat
  | PyStr string
  | PyObject bool

text \<open>
  An argument or a result that may be an object of the heap: a reference to it, or an
  immediate value.
\<close>

datatype pyarg = Ref nat | Imm pyval

text \<open>Truth value testing, as \<^verbatim>\<open>if label\<close> and \<^verbatim>\<open>not color\<close> perform it.\<close>

fun truthy :: "pyval \<Rightarrow> bool" where
  "truthy PyNone = False"
| "truthy (PyBool b) = b"
| "truthy (PyInt n) = (n \<noteq> 0)"
| "truthy (PyFloat f) = (f \<noteq> Finite 0)"
| "truthy (PyStr s) = (s \<noteq> [])"
| "truthy (PyObject b) = b"

text \<open>\<^verbatim>\<open>type(v) is str\<close>.\<close>

fun is_str :: "pyval \<Rightarrow> bool" where
  "is_str (PyStr s) = True"
| "is_str v = False"

fun str_of :: "pyval \<Rightarrow> string" where
  "str_of (PyStr s) = s"
| "str_of v = []"

definition py_trunc :: "rat \<Rightarrow> int" where
  "py_trunc q = (if q < 0 then - \<lfloor>- q\<rfloor> else \<lfloor>q\<rfloor>)"

text \<open>
  The builtin \<^verbatim>\<open>int(v)\<close>. The parser of \<^verbatim>\<open>int(str)\<close> is a parameter: it returns \<open>None\<close>
  where Python raises \<^verbatim>\<open>ValueError\<close>. A float is truncated towards zero; an infinity raises
  \<^verbatim>\<open>OverflowError\<close> and a NaN raises \<^verbatim>\<open>ValueError\<close>.
\<close>

fun py_int :: "(string \<Rightarrow> int option) \<Rightarrow> pyval \<Rightarrow> exn + int" where
  "py_int parse PyNone = Inl (TypeError ''int() argument must be a string, a bytes-like object or a real number'')"
| "py_int parse (PyBool b) = Inr (if b then 1 else 0)"
| "py_int parse (PyInt n) = Inr n"
| "py_int parse (PyFloat (Finite q)) = Inr (py_trunc q)"
| "py_int parse (PyFloat NaN) = Inl (ValueError ''cannot convert float NaN to integer'')"
| "py_int parse (PyFloat f) = Inl (OverflowError ''cannot convert float infinity to integer'')"
| "py_int parse (PyStr s) =
     (case parse s of
        None \<Rightarrow> Inl (ValueError ''invalid literal for int() with base 10'')
      | Some n \<Rightarrow> Inr n)"
| "py_int parse (PyObject b) = Inl (TypeError ''int() argument must be a string, a bytes-like object or a real number'')"

section \<open>\<^verbatim>\<open>hashlib.md5\<close>\<close>

text \<open>
  \<^verbatim>\<open>md5(label.encode()).hexdigest()\<close> is the MD5 message digest of RFC 1321, written as
  32 lower-case hexadecimal digits. The digest is computed on 32-bit words; the additions
  wrap around.
\<close>

type_synonym md5_state = "32 word \<times> 32 word \<times> 32 word \<times> 32 word"

definition md5_K :: "32 word list" where
  "md5_K =
    [0xd76aa478, 0xe8c7b756, 0x242070db, 0xc1bdceee, 0xf57c0faf, 0x4787c62a, 0xa8304613, 0xfd469501,
     0x698098d8, 0x8b44f7af, 0xffff5bb1, 0x895cd7be, 0x6b901122, 0xfd987193, 0xa679438e, 0x49b40821,
     0xf61e2562, 0xc040b340, 0x265e5a51, 0xe9b6c7aa, 0xd62f105d, 0x02441453, 0xd8a1e681, 0xe7d3fbc8,
     0x21e1cde6, 0xc33707d6, 0xf4d50d87, 0x455a14ed, 0xa9e3e905, 0xfcefa3f8, 0x676f02d9, 0x8d2a4c8a,
     0xfffa3942, 0x8771f681, 0x6d9d6122, 0xfde5380c, 0xa4beea44, 0x4bdecfa9, 0xf6bb4b60, 0xbebfbc70,
     0x289b7ec6, 0xeaa127fa, 0xd4ef3085, 0x04881d05, 0xd9d4d039, 0xe6db99e5, 0x1fa27cf8, 0xc4ac5665,
     0xf4292244, 0x432aff97, 0xab9423a7, 0xfc93a039, 0x655b59c3, 0x8f0ccc92, 0xffeff47d, 0x85845dd1,
     0x6fa87e4f, 0xfe2ce6e0, 0xa3014314, 0x4e0811a1, 0xf7537e82, 0xbd3af235, 0x2ad7d2bb, 0xeb86d391]"

definition md5_S :: "nat list" where
  "md5_S =
    [7, 12, 17, 22, 7, 12, 17, 22, 7, 12, 17, 22, 7, 12, 17, 22,
     5, 9, 14, 20, 5, 9, 14, 20, 5, 9, 14, 20, 5, 9, 14, 20,
     4, 11, 16, 23, 4, 11, 16, 23, 4, 11, 16, 23, 4, 11, 16, 23,
     6, 10, 15, 21, 6, 10, 15, 21, 6, 10, 15, 21, 6, 10, 15, 21]"

definition md5_round :: "32 word list \<Rightarrow> nat \<Rightarrow> md5_state \<Rightarrow> md5_state" where
  "md5_round M i st =
     (case st of (A, B, C, D) \<Rightarrow>
        let (F, g) =
              (if i < 16 then ((B AND C) OR (NOT B AND D), i)
               else if i < 32 then ((D AND B) OR (NOT D AND C), (5 * i + 1) mod 16)
               else if i < 48 then (B XOR C XOR D, (3 * i + 5) mod 16)
               else (C XOR (B OR NOT D), (7 * i) mod 16));
            F' = F + A + md5_K ! i + M ! g
        in (D, B + word_rotl (md5_S ! i) F', B, C))"

definition le_word32 :: "8 word list \<Rightarrow> 32 word" where
  "le_word32 bs = foldr (\<lambda>b acc. push_bit 8 acc OR ucast b) bs 0"

fun chunk_words :: "nat \<Rightarrow> 8 word list \<Rightarrow> 32 word list" where
  "chunk_words 0 bs = []"
| "chunk_words (Suc n) bs = le_word32 (take 4 bs) # chunk_words n (drop 4 bs)"

definition md5_block :: "8 word list \<Rightarrow> md5_state \<Rightarrow> md5_state" where
  "md5_block blk st =
     (case st of (a0, b0, c0, d0) \<Rightarrow>
        (case fold (md5_round (chunk_words 16 blk)) [0..<64] st of
           (A, B, C, D) \<Rightarrow> (a0 + A, b0 + B, c0 + C, d0 + D)))"

fun md5_blocks :: "nat \<Rightarrow> 8 word list \<Rightarrow> md5_state \<Rightarrow> md5_state" where
  "md5_blocks 0 bs st = st"
| "md5_blocks (Suc n) bs st = md5_blocks n (drop 64 bs) (md5_block (take 64 bs) st)"

definition le_bytes :: "nat \<Rightarrow> 'a::len word \<Rightarrow> 8 word list" where
  "le_bytes k w = map (\<lambda>i. ucast (drop_bit (8 * i) w)) [0..<k]"

definition md5_pad :: "8 word list \<Rightarrow> 8 word list" where
  "md5_pad msg =
     (let n = length msg
      in msg @ [0x80] @ replicate ((119 - n mod 64) mod 64) 0
             @ le_bytes 8 (8 * (of_nat n :: 64 word)))"

definition md5_digest :: "8 word list \<Rightarrow> 8 word list" where
  "md5_digest msg =
     (let p = md5_pad msg
      in case md5_blocks (length p div 64) p (0x67452301, 0xefcdab89, 0x98badcfe, 0x10325476) of
           (a, b, c, d) \<Rightarrow> concat (map (le_bytes 4) [a, b, c, d]))"

definition hex_digit :: "8 word \<Rightarrow> char" where
  "hex_digit n = ''0123456789abcdef'' ! unat n"

definition hexdigest :: "8 word list \<Rightarrow> string" where
  "hexdigest msg =
     concat (map (\<lambda>b. [hex_digit (drop_bit 4 b), hex_digit (b AND 15)]) (md5_digest msg))"

text \<open>\<^verbatim>\<open>label.encode()\<close>: the bytes of the string.\<close>

definition encode :: "string \<Rightarrow> 8 word list" where
  "encode s = map (\<lambda>c. of_nat (of_char c)) s"

text \<open>
  \<^verbatim>\<open>int(hex_digest, 16)\<close> on a string of hexadecimal digits, which is what \<^verbatim>\<open>hexdigest()\<close>
  returns. The integer has 128 bits: it is an \<open>int\<close>, as in Python.
\<close>

definition hex_value :: "char \<Rightarrow> int" where
  "hex_value c =
     (let n = int (of_char c)
      in if 48 \<le> n \<and> n \<le> 57 then n - 48 else if 97 \<le> n \<and> n \<le> 102 then n - 87 else n - 55)"

definition int16 :: "string \<Rightarrow> int" where
  "int16 s = foldl (\<lambda>acc c. 16 * acc + hex_value c) 0 s"

section \<open>The palette\<close>

type_synonym rgb = "int \<times> int \<times> int"

text \<open>
  \<^verbatim>\<open>_COLOR_NAME_TO_RGB\<close>: a dict, in insertion order, from a color name to the pair of the
  box color and the text color.
\<close>

definition COLOR_NAME_TO_RGB :: "(string \<times> rgb \<times> rgb) list" where
  "COLOR_NAME_TO_RGB =
    [(''navy'', (0, 38, 63), (119, 193, 250)),
     (''blue'', (0, 120, 210), (173, 220, 252)),
     (''aqua'', (115, 221, 252), (0, 76, 100)),
     (''teal'', (15, 205, 202), (0, 0, 0)),
     (''olive'', (52, 153, 114), (25, 58, 45)),
     (''green'', (0, 204, 84), (15, 64, 31)),
     (''lime'', (1, 255, 127), (0, 102, 53)),
     (''yellow'', (255, 216, 70), (103, 87, 28)),
     (''orange'', (255, 125, 57), (104, 48, 19)),
     (''red'', (255, 47, 65), (131, 0, 17)),
     (''maroon'', (135, 13, 75), (239, 117, 173)),
     (''fuchsia'', (246, 0, 184), (103, 0, 78)),
     (''purple'', (179, 17, 193), (241, 167, 244)),
     (''gray'', (168, 168, 168), (0, 0, 0)),
     (''silver'', (220, 220, 220), (0, 0, 0))]"

definition COLOR_NAMES :: "string list" where
  "COLOR_NAMES = map fst COLOR_NAME_TO_RGB"


text \<open>\<^verbatim>\<open>_rgb_to_bgr(color)\<close> is \<^verbatim>\<open>list(color)\<close>: the components keep their order.\<close>

definition rgb_to_bgr :: "rgb \<Rightarrow> int list" where
  "rgb_to_bgr color = (case color of (r, g, b) \<Rightarrow> [r, g, b])"

text \<open>
  Lines 408 to 411 of \<^verbatim>\<open>add\<close>: with a truthy label and a falsy color, the color is the
  palette name at the index \<^verbatim>\<open>int(md5(label.encode()).hexdigest(), 16) % len(_COLOR_NAME_TO_RGB)\<close>.
\<close>

definition color_index :: "string \<Rightarrow> nat" where
  "color_index label = nat (int16 (hexdigest (encode label)) mod int (length COLOR_NAME_TO_RGB))"

definition resolve_color :: "pyval \<Rightarrow> pyval \<Rightarrow> pyval" where
  "resolve_color label color =
     (if truthy label \<and> \<not> truthy color then PyStr (COLOR_NAMES ! color_index (str_of label))
      else color)"

section \<open>Arrays\<close>

text \<open>
  A numpy array is its shape and its elements in row-major order. The image buffers are
  arrays of unsigned 8-bit values; the glyph mask is an array of Python integers and the
  colorized label an array of floats, whose values are modelled by the rationals they
  denote.
\<close>

record 'a ndarray =
  shape :: "nat list"
  data :: "'a list"

type_synonym u8 = "8 word"

text \<open>The number of elements of an array is the product of its dimensions.\<close>

definition wf_array :: "'a ndarray \<Rightarrow> bool" where
  "wf_array a \<longleftrightarrow> length (data a) = prod_list (shape a)"

text \<open>\<^verbatim>\<open>a[None, ...]\<close>: a new leading axis of length 1.\<close>

definition expand_dims :: "'a ndarray \<Rightarrow> 'a ndarray" where
  "expand_dims a = a\<lparr>shape := 1 # shape a\<rparr>"

text \<open>\<^verbatim>\<open>np.concatenate(arrays)\<close> along the first axis.\<close>

definition concatenate :: "'a ndarray list \<Rightarrow> exn + 'a ndarray" where
  "concatenate arrs =
     (case arrs of
        [] \<Rightarrow> Inl (ValueError ''need at least one array to concatenate'')
      | a # _ \<Rightarrow>
          if \<exists>x \<in> set arrs. shape x = []
          then Inl (ValueError ''zero-dimensional arrays cannot be concatenated'')
          else Inr \<lparr>shape = sum_list (map (\<lambda>x. hd (shape x)) arrs) # tl (shape a),
                    data = concat (map data arrs)\<rparr>)"

text \<open>
  \<^verbatim>\<open>a.transpose(1, 2, 0)\<close> of an array of shape \<open>(c, h, w)\<close>: the element \<open>(i, j, k)\<close> of the
  result is the element \<open>(k, i, j)\<close> of \<open>a\<close>.
\<close>

definition transpose_120 :: "'a ndarray \<Rightarrow> exn + 'a ndarray" where
  "transpose_120 a =
     (case shape a of
        [c, h, w] \<Rightarrow>
          Inr \<lparr>shape = [h, w, c],
               data = map (\<lambda>n. data a ! (((n mod c) * h + n div (c * w)) * w + (n div c) mod w))
                          [0..<h * w * c]\<rparr>
      | _ \<Rightarrow> Inl (ValueError ''axes don't match array''))"

section \<open>The external collaborators\<close>

text \<open>
  \<^verbatim>\<open>_FONT.getmask(text)\<close> returns the glyph mask of the text: its \<^verbatim>\<open>size\<close> is
  \<open>(width, height)\<close> and it is a flat sequence of \<open>width * height\<close> intensities.
\<close>

record glyph =
  mask_size :: "nat \<times> nat"
  mask_pixels :: "int list"

text \<open>A mask has as many intensities as its size says.\<close>

definition wf_glyph :: "glyph \<Rightarrow> bool" where
  "wf_glyph g \<longleftrightarrow> length (mask_pixels g) = snd (mask_size g) * fst (mask_size g)"

text \<open>
  What the module takes from its libraries, as parameters: the font renderer; the pixels
  OpenCV paints for the outline of a rectangle of a given thickness
  (\<open>thick_outline pt1 pt2 thickness (x, y)\<close> holds when the pixel of column \<open>x\<close> and row \<open>y\<close> is
  painted); the parser of \<^verbatim>\<open>int(str)\<close>; \<^verbatim>\<open>x + y\<close> on operands that are not two ints; and the
  text of \<^verbatim>\<open>f"{score * 100: .2f}"\<close> as a function of the score, the product and the rounding
  being those of the floats.
\<close>

record env =
  getmask :: "string \<Rightarrow> glyph"
  thick_outline :: "int \<times> int \<Rightarrow> int \<times> int \<Rightarrow> int \<Rightarrow> int \<times> int \<Rightarrow> bool"
  str_to_int :: "string \<Rightarrow> int option"
  plus_other :: "pyval \<Rightarrow> pyval \<Rightarrow> exn + pyval"
  format_percent :: "rat \<Rightarrow> string"

section \<open>The label raster\<close>

text \<open>\<^verbatim>\<open>background_color + (font_color - background_color) * image / 255\<close>, elementwise.\<close>

definition color_image :: "int ndarray \<Rightarrow> int \<Rightarrow> int \<Rightarrow> rat ndarray" where
  "color_image bw font_color background_color =
     \<lparr>shape = shape bw,
      data = map (\<lambda>m. of_int background_color + of_int ((font_color - background_color) * m) / 255)
                 (data bw)\<rparr>"

text \<open>
  \<^verbatim>\<open>_get_label_image\<close>: \<^verbatim>\<open>np.array(text_image)\<close> is the flat sequence of the intensities,
  reshaped to \<open>(height, width)\<close>, which raises \<^verbatim>\<open>ValueError\<close> when the sizes differ. One
  colorized array per pair of the two color tuples, each under a new leading axis, are
  concatenated and the channel axis is moved last.
\<close>

definition get_label_image :: "env \<Rightarrow> string \<Rightarrow> int list \<Rightarrow> int list \<Rightarrow> exn + rat ndarray" where
  "get_label_image env text font_color_tuple_bgr background_color_tuple_bgr =
     (let text_image = getmask env text;
          shape' = rev [fst (mask_size text_image), snd (mask_size text_image)]
      in if length (mask_pixels text_image) \<noteq> prod_list shape'
         then Inl (ValueError ''cannot reshape array'')
         else
           let bw_image = \<lparr>shape = shape', data = mask_pixels text_image\<rparr>;
               images = map (\<lambda>(font_color, background_color).
                              expand_dims (color_image bw_image font_color background_color))
                           (zip font_color_tuple_bgr background_color_tuple_bgr)
           in case concatenate images of
                Inl e \<Rightarrow> Inl e
              | Inr a \<Rightarrow> transpose_120 a)"

section \<open>Drawing primitives\<close>

text \<open>
  \<^verbatim>\<open>cv2.rectangle(image, pt1, pt2, color, thickness)\<close> paints in place. It accepts an array
  with no dimension of length 0 that has one dimension (a column of \<open>N\<close> pixels), two, or
  three with at most four channels, and points whose coordinates fit a C \<^verbatim>\<open>int\<close>. With a
  negative thickness the rectangle is filled: every pixel of the image between the two
  corners, corners included, takes the color. Channel \<open>c\<close> takes
  component \<open>c\<close> of the color, and 0 where the color has no such component. The element
  \<open>k\<close> of the data is channel \<open>k mod C\<close> of the pixel of column \<open>(k div C) mod W\<close> and row
  \<open>k div (C * W)\<close>.
\<close>

definition in_c_int :: "int \<Rightarrow> bool" where
  "in_c_int v \<longleftrightarrow> - 2147483648 \<le> v \<and> v \<le> 2147483647"

definition image_dims :: "'a ndarray \<Rightarrow> (nat \<times> nat \<times> nat) option" where
  "image_dims img =
     (case shape img of
        [N] \<Rightarrow> if 0 < N then Some (N, 1, 1) else None
      | [H, W] \<Rightarrow> if 0 < H \<and> 0 < W then Some (H, W, 1) else None
      | [H, W, C] \<Rightarrow> if 0 < H \<and> 0 < W \<and> 1 \<le> C \<and> C \<le> 4 then Some (H, W, C) else None
      | _ \<Rightarrow> None)"

definition filled_box :: "int \<times> int \<Rightarrow> int \<times> int \<Rightarrow> int \<times> int \<Rightarrow> bool" where
  "filled_box pt1 pt2 q \<longleftrightarrow>
     min (fst pt1) (fst pt2) \<le> fst q \<and> fst q \<le> max (fst pt1) (fst pt2) \<and>
     min (snd pt1) (snd pt2) \<le> snd q \<and> snd q \<le> max (snd pt1) (snd pt2)"

definition paint :: "u8 ndarray \<Rightarrow> nat \<Rightarrow> nat \<Rightarrow> (int \<times> int \<Rightarrow> bool) \<Rightarrow> int list \<Rightarrow> u8 ndarray" where
  "paint img W C region color =
     img\<lparr>data :=
       map (\<lambda>k. if region (int ((k div C) mod W), int (k div (C * W)))
                then (if k mod C < length color then word_of_int (color ! (k mod C)) else 0)
                else data img ! k)
           [0..<length (data img)]\<rparr>"

definition cv2_rectangle ::
  "env \<Rightarrow> u8 ndarray \<Rightarrow> int \<times> int \<Rightarrow> int \<times> int \<Rightarrow> int list \<Rightarrow> int \<Rightarrow> exn + u8 ndarray" where
  "cv2_rectangle env img pt1 pt2 color thickness =
     (case image_dims img of
        None \<Rightarrow> Inl (Cv2Error ''img is not a numpy array, neither a scalar'')
      | Some (H, W, C) \<Rightarrow>
          if in_c_int (fst pt1) \<and> in_c_int (snd pt1) \<and> in_c_int (fst pt2) \<and> in_c_int (snd pt2)
          then Inr (paint img W C
                      (if thickness < 0 then filled_box pt1 pt2
                       else thick_outline env pt1 pt2 thickness)
                      color)
          else Inl (Cv2Error ''Can't parse 'pt1' ''))"

text \<open>
  The bounds of the slice \<^verbatim>\<open>start:stop\<close> on an axis of length \<open>n\<close>: a negative index counts
  from the end, and both are clipped to the axis. The slice is empty when the first bound
  is not below the second.
\<close>

definition slice_bounds :: "int \<Rightarrow> int \<Rightarrow> nat \<Rightarrow> nat \<times> nat" where
  "slice_bounds start stop n =
     (let clip = (\<lambda>k. if k < 0 then max (k + int n) 0 else min k (int n))
      in (nat (clip start), nat (clip stop)))"

text \<open>The cast of a float to \<^verbatim>\<open>uint8\<close> on assignment: truncation towards zero.\<close>

definition to_uint8 :: "rat \<Rightarrow> u8" where
  "to_uint8 q = word_of_int (py_trunc q)"

text \<open>
  \<^verbatim>\<open>image[top:bottom, left:right, :] = value\<close> on a three-dimensional image. The value is
  broadcast to the shape of the slice: each of its dimensions is that of the slice or 1.
  Otherwise numpy raises \<^verbatim>\<open>ValueError\<close> and the image is not written.
\<close>

definition setitem :: "u8 ndarray \<Rightarrow> int \<Rightarrow> int \<Rightarrow> int \<Rightarrow> int \<Rightarrow> rat ndarray \<Rightarrow> exn + u8 ndarray" where
  "setitem img top' bottom left right val =
     (case shape img of
        [H, W, C] \<Rightarrow>
          (case shape val of
             [vh, vw, vc] \<Rightarrow>
               (case slice_bounds top' bottom H of (r0, r1) \<Rightarrow>
                (case slice_bounds left right W of (c0, c1) \<Rightarrow>
                  if (vh = r1 - r0 \<or> vh = 1) \<and> (vw = c1 - c0 \<or> vw = 1) \<and> (vc = C \<or> vc = 1)
                  then Inr (img\<lparr>data :=
                         map (\<lambda>k. let i = k div (C * W); j = (k div C) mod W; c = k mod C
                                  in if r0 \<le> i \<and> i < r1 \<and> c0 \<le> j \<and> j < c1
                                     then to_uint8 (data val !
                                            (((if vh = 1 then 0 else i - r0) * vw
                                              + (if vw = 1 then 0 else j - c0)) * vc
                                             + (if vc = 1 then 0 else c)))
                                     else data img ! k)
                             [0..<length (data img)]\<rparr>)
                  else Inl (ValueError ''could not broadcast input array'')))
           | _ \<Rightarrow> Inl (ValueError ''could not broadcast input array''))
      | _ \<Rightarrow> Inl (IndexError ''too many indices for array''))"

section \<open>\<^verbatim>\<open>add\<close>: one box on the image\<close>

text \<open>
  Lines 400 to 403: the four coordinates are converted in order; the \<^verbatim>\<open>except ValueError\<close>
  clause turns a \<^verbatim>\<open>ValueError\<close> of \<^verbatim>\<open>int()\<close> into the \<^verbatim>\<open>TypeError\<close> of \<^verbatim>\<open>add\<close>, and any other
  exception propagates as it is.
\<close>

definition except_ValueError :: "exn \<Rightarrow> exn" where
  "except_ValueError e =
     (case e of
        ValueError m \<Rightarrow> TypeError '''left', 'top', 'right' & 'bottom' must be a number''
      | _ \<Rightarrow> e)"

definition to_ints :: "env \<Rightarrow> pyval \<Rightarrow> pyval \<Rightarrow> pyval \<Rightarrow> pyval \<Rightarrow> exn + (int \<times> int \<times> int \<times> int)" where
  "to_ints env left top' right bottom =
     (case py_int (str_to_int env) left of
        Inl e \<Rightarrow> Inl (except_ValueError e)
      | Inr l \<Rightarrow>
     (case py_int (str_to_int env) top' of
        Inl e \<Rightarrow> Inl (except_ValueError e)
      | Inr t \<Rightarrow>
     (case py_int (str_to_int env) right of
        Inl e \<Rightarrow> Inl (except_ValueError e)
      | Inr r \<Rightarrow>
     (case py_int (str_to_int env) bottom of
        Inl e \<Rightarrow> Inl (except_ValueError e)
      | Inr b \<Rightarrow> Inr (l, t, r, b)))))"

text \<open>\<^verbatim>\<open>", ".join(names)\<close>.\<close>

fun join :: "string \<Rightarrow> string list \<Rightarrow> string" where
  "join sep [] = []"
| "join sep [x] = x"
| "join sep (x # y # ys) = x @ sep @ join sep (y # ys)"

text \<open>
  Lines 434 to 452: the background rectangle of the label and the region the glyph raster
  is copied to, from the width of the image, the left and top of the box and the height
  and width of the raster.
\<close>

record label_box =
  rectangle_left :: int
  rectangle_top :: int
  rectangle_right :: int
  rectangle_bottom :: int
  label_left :: int
  label_top :: int
  label_right :: int
  label_bottom :: int

definition label_geometry :: "int \<Rightarrow> int \<Rightarrow> int \<Rightarrow> int \<Rightarrow> int \<Rightarrow> label_box" where
  "label_geometry image_width left top' label_height label_width =
     (let rectangle_height = 1 + label_height;
          rectangle_width = 1 + label_width;
          rectangle_bottom0 = top';
          rectangle_left = max 0 (min (left - 1) (image_width - rectangle_width));
          rectangle_top0 = rectangle_bottom0 - rectangle_height;
          rectangle_right = rectangle_left + rectangle_width;
          label_top0 = rectangle_top0 + 1;
          (rectangle_top, rectangle_bottom, label_top) =
             (if rectangle_top0 < 0 then (top', top' + label_height + 1, top')
              else (rectangle_top0, rectangle_bottom0, label_top0));
          label_left = rectangle_left + 1;
          label_bottom = label_top + label_height;
          label_right = label_left + label_width
      in \<lparr>rectangle_left = rectangle_left, rectangle_top = rectangle_top,
          rectangle_right = rectangle_right, rectangle_bottom = rectangle_bottom,
          label_left = label_left, label_top = label_top,
          label_right = label_right, label_bottom = label_bottom\<rparr>)"

text \<open>
  Lines 426 to 459, on the array: the outline, then for a truthy label the raster, the
  filled rectangle and the copy of the raster. Each step writes the array in place, so an
  exception leaves what the steps before it have painted. The function ends without a
  \<^verbatim>\<open>return\<close> statement: its value is \<^verbatim>\<open>None\<close>.
\<close>

definition draw ::
  "env \<Rightarrow> u8 ndarray \<Rightarrow> int \<Rightarrow> int \<Rightarrow> int \<Rightarrow> int \<Rightarrow> pyval \<Rightarrow> int list \<Rightarrow> int list
     \<Rightarrow> u8 ndarray \<times> (exn + pyarg)" where
  "draw env img left top' right bottom label color color_text =
     (case cv2_rectangle env img (left, top') (right, bottom) color 15 of
        Inl e \<Rightarrow> (img, Inl e)
      | Inr img1 \<Rightarrow>
          if \<not> truthy label then (img1, Inr (Imm PyNone))
          else
            (case shape img1 of
               [_, image_width, _] \<Rightarrow>
                 (case get_label_image env (str_of label) color_text color of
                    Inl e \<Rightarrow> (img1, Inl e)
                  | Inr label_image \<Rightarrow>
                      (case shape label_image of
                         [label_height, label_width, _] \<Rightarrow>
                           let g = label_geometry (int image_width) left top'
                                     (int label_height) (int label_width)
                           in (case cv2_rectangle env img1 (rectangle_left g, rectangle_top g)
                                       (rectangle_right g, rectangle_bottom g) color (- 1) of
                                 Inl e \<Rightarrow> (img1, Inl e)
                               | Inr img2 \<Rightarrow>
                                   (case setitem img2 (label_top g) (label_bottom g)
                                           (label_left g) (label_right g) label_image of
                                      Inl e \<Rightarrow> (img2, Inl e)
                                    | Inr img3 \<Rightarrow> (img3, Inr (Imm PyNone))))
                       | _ \<Rightarrow> (img1, Inl (ValueError ''not enough values to unpack (expected 3)''))))
             | _ \<Rightarrow> (img1, Inl (ValueError ''not enough values to unpack (expected 3)''))))"

text \<open>Lines 400 to 459 of \<^verbatim>\<open>add\<close>, on the array the image argument refers to.\<close>

definition add_core ::
  "env \<Rightarrow> u8 ndarray \<Rightarrow> pyval \<Rightarrow> pyval \<Rightarrow> pyval \<Rightarrow> pyval \<Rightarrow> pyval \<Rightarrow> pyval
     \<Rightarrow> u8 ndarray \<times> (exn + pyarg)" where
  "add_core env img left top' right bottom label color =
     (case to_ints env left top' right bottom of
        Inl e \<Rightarrow> (img, Inl e)
      | Inr (l, t, r, b) \<Rightarrow>
          if truthy label \<and> \<not> is_str label then (img, Inl (TypeError '''label' must be a str''))
          else
            let color' = resolve_color label color
            in if \<not> is_str color' then (img, Inl (TypeError '''color' must be a str''))
               else
                 (case map_of COLOR_NAME_TO_RGB (str_of color') of
                    None \<Rightarrow>
                      (img, Inl (ValueError ('''color' must be one of '' @ join '', '' COLOR_NAMES)))
                  | Some (c, c_text) \<Rightarrow>
                      draw env img l t r b label (rgb_to_bgr c) (rgb_to_bgr c_text)))"

text \<open>The two exceptions of the checks of the color, lines 416 to 421.\<close>

definition color_error :: "exn \<Rightarrow> bool" where
  "color_error e \<longleftrightarrow>
     e = TypeError '''color' must be a str'' \<or>
     e = ValueError ('''color' must be one of '' @ join '', '' COLOR_NAMES)"

text \<open>
  The objects a reference can point to: a numpy array or a PIL image, each with its pixel
  data. The heap is the list of the objects allocated so far, a reference is an index in
  it, and allocation appends.
\<close>

datatype obj = NDArray "u8 ndarray" | PILImage "u8 ndarray"

type_synonym heap = "obj list"

fun pixels_of :: "obj \<Rightarrow> u8 ndarray" where
  "pixels_of (NDArray a) = a"
| "pixels_of (PILImage a) = a"

definition alloc :: "heap \<Rightarrow> obj \<Rightarrow> heap \<times> nat" where
  "alloc h ob = (h @ [ob], length h)"

text \<open>\<^verbatim>\<open>type(image) is np.ndarray\<close>: the reference and the array, when it is one.\<close>

definition ndarray_at :: "heap \<Rightarrow> pyarg \<Rightarrow> (nat \<times> u8 ndarray) option" where
  "ndarray_at h img =
     (case img of
        Imm v \<Rightarrow> None
      | Ref r \<Rightarrow>
          if r < length h then (case h ! r of NDArray a \<Rightarrow> Some (r, a) | PILImage a \<Rightarrow> None)
          else None)"

text \<open>
  \<^verbatim>\<open>add(image, left, top, right, bottom, label, color)\<close>: the heap after the call, and the
  exception raised or the value returned. Line 398 rejects an image that is not a numpy
  array; otherwise the array is written where it is.
\<close>

definition add ::
  "env \<Rightarrow> heap \<Rightarrow> pyarg \<Rightarrow> pyval \<Rightarrow> pyval \<Rightarrow> pyval \<Rightarrow> pyval \<Rightarrow> pyval \<Rightarrow> pyval
     \<Rightarrow> heap \<times> (exn + pyarg)" where
  "add env h img left top' right bottom label color =
     (case ndarray_at h img of
        None \<Rightarrow> (h, Inl (TypeError '''image' parameter must be a numpy.ndarray''))
      | Some (r, a) \<Rightarrow>
          (case add_core env a left top' right bottom label color of
             (a', out) \<Rightarrow> (h[r := NDArray a'], out)))"

section \<open>\<^verbatim>\<open>plot_bboxes\<close>: all the boxes on a copy\<close>

text \<open>
  A \<^verbatim>\<open>BBox2D\<close>. Its coordinates are Python values; the score is the rational the float
  denotes.
\<close>

record bbox2d =
  box_x :: pyval
  box_y :: pyval
  box_w :: pyval
  box_h :: pyval
  box_label :: int
  box_score :: rat

text \<open>
  \<^verbatim>\<open>box.x + box.w\<close>: the sum of two ints is exact. For any other pair of operands the result
  is the library's and a parameter: the rounded sum of two floats, the exception of operands
  that \<^verbatim>\<open>+\<close> does not support.
\<close>

fun py_plus :: "(pyval \<Rightarrow> pyval \<Rightarrow> exn + pyval) \<Rightarrow> pyval \<Rightarrow> pyval \<Rightarrow> exn + pyval" where
  "py_plus other (PyInt m) (PyInt n) = Inr (PyInt (m + n))"
| "py_plus other x y = other x y"

text \<open>
  \<^verbatim>\<open>label_mappings.iloc[i]["Label Name"]\<close>, the table being the list of its label names by
  position, and \<^verbatim>\<open>colors[i]\<close>.
\<close>

definition iloc :: "'a list \<Rightarrow> int \<Rightarrow> exn + 'a" where
  "iloc xs i =
     (if - int (length xs) \<le> i \<and> i < int (length xs)
      then Inr (xs ! nat (if i < 0 then i + int (length xs) else i))
      else Inl (IndexError ''single positional indexer is out-of-bounds''))"

definition getitem :: "'a list \<Rightarrow> nat \<Rightarrow> exn + 'a" where
  "getitem xs i = (if i < length xs then Inr (xs ! i) else Inl (IndexError ''list index out of range''))"

text \<open>\<^verbatim>\<open>not colors\<close>: the argument is \<^verbatim>\<open>None\<close> or an empty list.\<close>

definition not_colors :: "pyval list option \<Rightarrow> bool" where
  "not_colors colors \<longleftrightarrow> colors = None \<or> colors = Some []"

text \<open>
  The loop of lines 136 to 170 from box \<open>i\<close> on, \<open>combined\<close> being the reference of the
  working array. Lines 154 and 155 compute the corners, line 156 looks the label up, and
  \<^verbatim>\<open>add\<close> is called with the label alone or with the label, the score and the color of the
  box. An exception ends the loop and propagates.
\<close>

fun plot_loop ::
  "env \<Rightarrow> string list \<Rightarrow> pyval list option \<Rightarrow> nat \<Rightarrow> nat \<Rightarrow> bbox2d list \<Rightarrow> heap
     \<Rightarrow> heap \<times> (exn + unit)" where
  "plot_loop env label_mappings colors combined i [] h = (h, Inr ())"
| "plot_loop env label_mappings colors combined i (box # boxes) h =
     (let left = box_x box; top' = box_y box
      in case py_plus (plus_other env) (box_x box) (box_w box) of
           Inl e \<Rightarrow> (h, Inl e)
         | Inr right \<Rightarrow>
        (case py_plus (plus_other env) (box_y box) (box_h box) of
           Inl e \<Rightarrow> (h, Inl e)
         | Inr bottom \<Rightarrow>
        (case iloc label_mappings (box_label box) of
           Inl e \<Rightarrow> (h, Inl e)
         | Inr label \<Rightarrow>
             if not_colors colors then
               (case add env h (Ref combined) left top' right bottom (PyStr label) PyNone of
                  (h', Inl e) \<Rightarrow> (h', Inl e)
                | (h', Inr v) \<Rightarrow> plot_loop env label_mappings colors combined (Suc i) boxes h')
             else
               let label' = label @ '': '' @ format_percent env (box_score box) @ ''%''
               in (case getitem (the colors) i of
                     Inl e \<Rightarrow> (h, Inl e)
                   | Inr c \<Rightarrow>
                       (case add env h (Ref combined) left top' right bottom (PyStr label') c of
                          (h', Inl e) \<Rightarrow> (h', Inl e)
                        | (h', Inr v) \<Rightarrow>
                            plot_loop env label_mappings colors combined (Suc i) boxes h')))))"

text \<open>
  \<^verbatim>\<open>plot_bboxes(image, boxes, label_mappings, colors)\<close>, \<open>img\<close> being the reference of the
  caller's image: \<^verbatim>\<open>image.copy()\<close> and \<^verbatim>\<open>np.array\<close> allocate, the loop draws on the new array,
  and \<^verbatim>\<open>Image.fromarray\<close> allocates the image that is returned. The body does not read
  the parameters \<^verbatim>\<open>box_line_width\<close> and \<^verbatim>\<open>font_scale\<close>.
\<close>

definition plot_bboxes ::
  "env \<Rightarrow> heap \<Rightarrow> nat \<Rightarrow> bbox2d list \<Rightarrow> string list \<Rightarrow> pyval list option \<Rightarrow> heap \<times> (exn + nat)" where
  "plot_bboxes env h img boxes label_mappings colors =
     (case alloc h (h ! img) of (h1, copied) \<Rightarrow>
        (case alloc h1 (NDArray (pixels_of (h1 ! copied))) of (h2, combined) \<Rightarrow>
           (case plot_loop env label_mappings colors combined 0 boxes h2 of
              (h3, Inl e) \<Rightarrow> (h3, Inl e)
            | (h3, Inr u) \<Rightarrow>
                (case alloc h3 (PILImage (pixels_of (h3 ! combined))) of
                   (h4, r) \<Rightarrow> (h4, Inr r)))))"

text \<open>
  The drawing of the boxes as a function of the pixel array alone: \<^verbatim>\<open>add\<close> applied box
  after box, from box \<open>i\<close> on. This is the reading of "all boxes drawn" that \<open>plot_bboxes\<close>
  is compared with.
\<close>

fun annotate_all ::
  "env \<Rightarrow> string list \<Rightarrow> pyval list option \<Rightarrow> nat \<Rightarrow> bbox2d list \<Rightarrow> u8 ndarray
     \<Rightarrow> u8 ndarray \<times> (exn + unit)" where
  "annotate_all env label_mappings colors i [] a = (a, Inr ())"
| "annotate_all env label_mappings colors i (box # boxes) a =
     (case py_plus (plus_other env) (box_x box) (box_w box) of
        Inl e \<Rightarrow> (a, Inl e)
      | Inr right \<Rightarrow>
     (case py_plus (plus_other env) (box_y box) (box_h box) of
        Inl e \<Rightarrow> (a, Inl e)
      | Inr bottom \<Rightarrow>
     (case iloc label_mappings (box_label box) of
        Inl e \<Rightarrow> (a, Inl e)
      | Inr label \<Rightarrow>
          (case (if not_colors colors then Inr (label, PyNone)
                 else (case getitem (the colors) i of
                         Inl e \<Rightarrow> Inl e
                       | Inr c \<Rightarrow> Inr (label @ '': '' @ format_percent env (box_score box) @ ''%'', c))) of
             Inl e \<Rightarrow> (a, Inl e)
           | Inr (text, c) \<Rightarrow>
               (case add_core env a (box_x box) (box_y box) right bottom (PyStr text) c of
                  (a', Inl e) \<Rightarrow> (a', Inl e)
                | (a', Inr v) \<Rightarrow> annotate_all env label_mappings colors (Suc i) boxes a')))))"

section \<open>\<^verbatim>\<open>decode_segmap\<close>\<close>

text \<open>
  \<^verbatim>\<open>rgb[labels == id, :] = color / 255.0\<close>: the pixels whose label is \<open>ident\<close> take the color.
\<close>

definition assign_mask :: "rat ndarray \<Rightarrow> int ndarray \<Rightarrow> int \<Rightarrow> rat list \<Rightarrow> rat ndarray" where
  "assign_mask rgb labels ident color =
     rgb\<lparr>data := map (\<lambda>k. if data labels ! (k div 3) = ident then color ! (k mod 3)
                         else data rgb ! k)
                    [0..<length (data rgb)]\<rparr>"

text \<open>
  The body of the loop, lines 42 to 44, for one item of the mapping: \<^verbatim>\<open>np.array(color)\<close>
  is divided by 255 and assigned under the mask of the class id.
\<close>

definition segmap_step :: "int ndarray \<Rightarrow> int \<times> rgb \<Rightarrow> rat ndarray \<Rightarrow> rat ndarray" where
  "segmap_step labels = (\<lambda>(ident, color) rgb.
      assign_mask rgb labels ident
        (map (\<lambda>v. of_int v / 255) (case color of (r, g, b) \<Rightarrow> [r, g, b])))"

text \<open>
  \<^verbatim>\<open>CITYSCAPES_COLOR_MAPPING\<close> is defined in another module of the package: it is a
  parameter here, the list of the items of the dict in order.
\<close>

definition decode_segmap :: "(int \<times> rgb) list \<Rightarrow> int ndarray \<Rightarrow> string \<Rightarrow> exn + rat ndarray" where
  "decode_segmap CITYSCAPES_COLOR_MAPPING labels dataset =
     (if dataset = ''cityscapes'' then
        (case shape labels of
           [h, w] \<Rightarrow>
             Inr (fold (segmap_step labels) CITYSCAPES_COLOR_MAPPING
                       \<lparr>shape = [h, w, 3], data = replicate (h * w * 3) 0\<rparr>)
         | _ \<Rightarrow> Inl (ValueError ''not enough values to unpack (expected 2)''))
      else Inl (ValueError (''Dataset '' @ [CHR 0x27] @ dataset @ [CHR 0x27] @ '' is not supported.'')))"

section \<open>A small environment for concrete runs\<close>

text \<open>
  A font whose mask of a text is two rows high and as wide as the text has bytes, an
  outline that paints the four sides of the rectangle one pixel wide, a parser of plain
  decimal digits, a sum that is defined on ints only, and a constant score format. The
  instances of the theorems below are computed in this environment.
\<close>

definition demo_getmask :: "string \<Rightarrow> glyph" where
  "demo_getmask text = \<lparr>mask_size = (length text, 2), mask_pixels = replicate (length text) 255 @ replicate (length text) 0\<rparr>"

definition demo_outline :: "int \<times> int \<Rightarrow> int \<times> int \<Rightarrow> int \<Rightarrow> int \<times> int \<Rightarrow> bool" where
  "demo_outline pt1 pt2 thickness q \<longleftrightarrow>
     filled_box pt1 pt2 q \<and>
     (fst q = fst pt1 \<or> fst q = fst pt2 \<or> snd q = snd pt1 \<or> snd q = snd pt2)"

definition demo_str_to_int :: "string \<Rightarrow> int option" where
  "demo_str_to_int s =
     (if s \<noteq> [] \<and> (\<forall>c \<in> set s. 48 \<le> (of_char c :: nat) \<and> (of_char c :: nat) \<le> 57)
      then Some (foldl (\<lambda>acc c. 10 * acc + (int (of_char c) - 48)) 0 s)
      else None)"

definition demo_env :: env where
  "demo_env = \<lparr>getmask = demo_getmask, thick_outline = demo_outline,
               str_to_int = demo_str_to_int,
               plus_other = (\<lambda>x y. Inl (TypeError ''unsupported operand type(s) for +'')),
               format_percent = (\<lambda>q. '' 0.00'')\<rparr>"

text \<open>A black image of \<open>H\<close> rows and \<open>W\<close> columns.\<close>

definition black :: "nat \<Rightarrow> nat \<Rightarrow> u8 ndarray" where
  "black H W = \<lparr>shape = [H, W, 3], data = replicate (H * W * 3) 0\<rparr>"

section \<open>Facts about the digest\<close>

text \<open>The test suite of RFC 1321, for messages of one block and of two.\<close>

lemma md5_empty: "hexdigest (encode []) = ''d41d8cd98f00b204e9800998ecf8427e''"
  by code_simp

lemma md5_abc: "hexdigest (encode ''abc'') = ''900150983cd24fb0d6963f7d28e17f72''"
  by code_simp

lemma md5_digits:
  "hexdigest (encode ''12345678901234567890123456789012345678901234567890123456789012345678901234567890'')
     = ''57edf4a22be3c955ac49da2e2107b67a''"
  by code_simp

section \<open>Facts about the palette and the color resolution\<close>

lemma COLOR_NAMES_eq:
  "COLOR_NAMES = [''navy'', ''blue'', ''aqua'', ''teal'', ''olive'', ''green'', ''lime'', ''yellow'',
                  ''orange'', ''red'', ''maroon'', ''fuchsia'', ''purple'', ''gray'', ''silver'']"
  by (simp add: COLOR_NAMES_def COLOR_NAME_TO_RGB_def)

lemma length_palette: "length COLOR_NAME_TO_RGB = 15"
  by (simp add: COLOR_NAME_TO_RGB_def)

lemma color_index_less: "color_index s < length COLOR_NAMES"
  by (simp add: color_index_def COLOR_NAMES_def length_palette)

lemma palette_lookup:
  assumes "name \<in> set COLOR_NAMES"
  shows "\<exists>c ct. map_of COLOR_NAME_TO_RGB name = Some (c, ct)"
proof -
  from assms have "name \<in> fst ` set COLOR_NAME_TO_RGB"
    by (simp add: COLOR_NAMES_def)
  then obtain v where "map_of COLOR_NAME_TO_RGB name = Some v"
    by (metis domD dom_map_of_conv_image_fst)
  then show ?thesis by (cases v) auto
qed

lemma palette_lookup_None:
  "name \<notin> set COLOR_NAMES \<Longrightarrow> map_of COLOR_NAME_TO_RGB name = None"
  by (simp add: COLOR_NAMES_def map_of_eq_None_iff)

lemma palette_names_nonempty: "name \<in> set COLOR_NAMES \<Longrightarrow> name \<noteq> []"
  by (auto simp: COLOR_NAMES_eq)

lemma resolve_color_explicit:
  "truthy color \<Longrightarrow> resolve_color label color = color"
  by (simp add: resolve_color_def)


lemma resolve_color_auto:
  "truthy label \<Longrightarrow> \<not> truthy color \<Longrightarrow>
   resolve_color label color = PyStr (COLOR_NAMES ! color_index (str_of label))"
  by (simp add: resolve_color_def)

section \<open>Facts about the drawing\<close>

lemma cv2_rectangle_shape:
  "cv2_rectangle env a p1 p2 c t = Inr a' \<Longrightarrow>
   shape a' = shape a \<and> length (data a') = length (data a)"
  by (auto simp: cv2_rectangle_def paint_def split: option.splits if_splits)

lemma setitem_shape:
  "setitem a t b l r v = Inr a' \<Longrightarrow> shape a' = shape a \<and> length (data a') = length (data a)"
  by (auto simp: setitem_def split: list.splits if_splits prod.splits)

lemma draw_shape:
  assumes "draw env a l t r b label c ct = (a', out)"
  shows "shape a' = shape a \<and> length (data a') = length (data a)"
  using assms
  by (auto simp: draw_def Let_def split: sum.splits if_splits list.splits
           dest!: cv2_rectangle_shape setitem_shape)

lemma draw_returns_None:
  "draw env a l t r b label c ct = (a', Inr v) \<Longrightarrow> v = Imm PyNone"
  by (auto simp: draw_def Let_def split: sum.splits if_splits list.splits)

lemma add_core_shape:
  assumes "add_core env a left top' right bottom label color = (a', out)"
  shows "shape a' = shape a \<and> length (data a') = length (data a)"
  using assms
  by (auto simp: add_core_def Let_def split: sum.splits if_splits option.splits prod.splits
           dest: draw_shape)

lemma add_core_returns_None:
  "add_core env a left top' right bottom label color = (a', Inr v) \<Longrightarrow> v = Imm PyNone"
  by (auto simp: add_core_def Let_def split: sum.splits if_splits option.splits prod.splits
           dest: draw_returns_None)

lemma ndarray_at_SomeD:
  "ndarray_at h img = Some (r, a) \<Longrightarrow> img = Ref r \<and> r < length h \<and> h ! r = NDArray a"
  by (auto simp: ndarray_at_def split: pyarg.splits if_splits obj.splits)

lemma add_unfold:
  "ndarray_at h img = Some (r, a) \<Longrightarrow>
   add env h img left top' right bottom label color
     = (h[r := NDArray (fst (add_core env a left top' right bottom label color))],
        snd (add_core env a left top' right bottom label color))"
  by (simp add: add_def split: prod.splits)

lemma add_not_array:
  "ndarray_at h img = None \<Longrightarrow>
   add env h img left top' right bottom label color
     = (h, Inl (TypeError '''image' parameter must be a numpy.ndarray''))"
  by (simp add: add_def)

lemma ndarray_at_update_id:
  "ndarray_at h img = Some (r, a) \<Longrightarrow> h[r := NDArray a] = h"
  by (metis list_update_id ndarray_at_SomeD)

section \<open>Facts about the exceptions\<close>

lemma py_int_error:
  assumes "py_int p v = Inl e"
  shows "e = TypeError ''int() argument must be a string, a bytes-like object or a real number'' \<or>
         (\<exists>m. e = ValueError m) \<or>
         e = OverflowError ''cannot convert float infinity to integer'' \<and>
           (v = PyFloat PosInf \<or> v = PyFloat NegInf)"
  using assms by (cases "(p, v)" rule: py_int.cases) (auto split: option.splits)

lemma except_ValueError_error:
  assumes "py_int p v = Inl e"
  shows "except_ValueError e = TypeError ''int() argument must be a string, a bytes-like object or a real number'' \<or>
         except_ValueError e = TypeError '''left', 'top', 'right' & 'bottom' must be a number'' \<or>
         except_ValueError e = OverflowError ''cannot convert float infinity to integer'' \<and>
           (v = PyFloat PosInf \<or> v = PyFloat NegInf)"
  using py_int_error [OF assms] by (auto simp: except_ValueError_def)

lemma to_ints_error:
  assumes "to_ints env left top' right bottom = Inl e"
  shows "e = TypeError ''int() argument must be a string, a bytes-like object or a real number'' \<or>
         e = TypeError '''left', 'top', 'right' & 'bottom' must be a number'' \<or>
         e = OverflowError ''cannot convert float infinity to integer'' \<and>
           (\<exists>c \<in> set [left, top', right, bottom]. c = PyFloat PosInf \<or> c = PyFloat NegInf)"
proof -
  from assms obtain v e0 where v: "v \<in> set [left, top', right, bottom]"
      and e0: "py_int (str_to_int env) v = Inl e0" and e: "e = except_ValueError e0"
    by (auto simp: to_ints_def split: sum.splits)
  from except_ValueError_error [OF e0] v e show ?thesis by auto
qed

lemma to_ints_fails:
  assumes "v \<in> set [left, top', right, bottom]" and "py_int (str_to_int env) v = Inl e0"
  shows "\<exists>e. to_ints env left top' right bottom = Inl e"
  using assms by (auto simp: to_ints_def split: sum.splits)

lemma cv2_rectangle_error:
  "cv2_rectangle env a p1 p2 c t = Inl e \<Longrightarrow> \<exists>m. e = Cv2Error m"
  by (auto simp: cv2_rectangle_def split: option.splits if_splits)

lemma get_label_image_error:
  "get_label_image env text fc bc = Inl e \<Longrightarrow> \<exists>m. e = ValueError m \<and> hd m \<noteq> CHR 0x27"
  by (auto simp: get_label_image_def Let_def concatenate_def transpose_120_def
           split: if_splits list.splits sum.splits)

lemma setitem_error:
  "setitem a t b l r v = Inl e \<Longrightarrow>
   e = ValueError ''could not broadcast input array'' \<or> e = IndexError ''too many indices for array''"
  by (auto simp: setitem_def split: list.splits if_splits prod.splits)

lemma draw_error:
  assumes "draw env a l t r b label c ct = (a', Inl e)"
  shows "\<not> color_error e"
proof -
  from assms have "(\<exists>m. e = Cv2Error m) \<or> (\<exists>m. e = ValueError m \<and> hd m \<noteq> CHR 0x27)
      \<or> e = IndexError ''too many indices for array''"
    by (auto simp: draw_def Let_def split: sum.splits if_splits list.splits
             dest!: cv2_rectangle_error get_label_image_error setitem_error)
  then show ?thesis by (auto simp: color_error_def)
qed

lemma add_core_explicit_color:
  assumes "name \<in> set COLOR_NAMES" and "map_of COLOR_NAME_TO_RGB name = Some (c, ct)"
  shows "add_core env a left top' right bottom label (PyStr name)
           = (case to_ints env left top' right bottom of
                Inl e \<Rightarrow> (a, Inl e)
              | Inr (l, t, r, b) \<Rightarrow>
                  if truthy label \<and> \<not> is_str label then (a, Inl (TypeError '''label' must be a str''))
                  else draw env a l t r b label (rgb_to_bgr c) (rgb_to_bgr ct))"
proof -
  from assms(1) have "truthy (PyStr name)"
    by (auto dest: palette_names_nonempty)
  then have "resolve_color label (PyStr name) = PyStr name"
    by (rule resolve_color_explicit)
  then show ?thesis
    using assms(2) by (auto simp: add_core_def split: sum.splits prod.splits)
qed

lemma add_core_explicit_color_error:
  assumes "name \<in> set COLOR_NAMES"
    and "add_core env a left top' right bottom label (PyStr name) = (a', Inl e)"
  shows "\<not> color_error e"
proof -
  from assms(1) obtain c ct where look: "map_of COLOR_NAME_TO_RGB name = Some (c, ct)"
    using palette_lookup by blast
  show ?thesis
  proof (cases "to_ints env left top' right bottom")
    case (Inl e0)
    with assms look have "e = e0"
      by (simp add: add_core_explicit_color)
    with to_ints_error [OF Inl] show ?thesis
      by (auto simp: color_error_def)
  next
    case (Inr q)
    obtain l t r b where q: "q = (l, t, r, b)" by (cases q) auto
    show ?thesis
    proof (cases "truthy label \<and> \<not> is_str label")
      case True
      with assms look Inr q have "e = TypeError '''label' must be a str''"
        by (simp add: add_core_explicit_color)
      then show ?thesis by (simp add: color_error_def)
    next
      case False
      with assms look Inr q have "draw env a l t r b label (rgb_to_bgr c) (rgb_to_bgr ct) = (a', Inl e)"
        by (simp add: add_core_explicit_color)
      then show ?thesis by (rule draw_error)
    qed
  qed
qed

section \<open>Facts about row-major indices\<close>

lemma flat_index_less:
  fixes i j h w :: nat
  assumes "i < h" and "j < w"
  shows "i * w + j < h * w"
proof -
  have "i * w + j < i * w + w" using assms(2) by simp
  also have "\<dots> = Suc i * w" by simp
  also have "\<dots> \<le> h * w" using assms(1) by (intro mult_le_mono1) simp
  finally show ?thesis .
qed

lemma flat_index3_less:
  fixes i j c h w n :: nat
  assumes "i < h" and "j < w" and "c < n"
  shows "(i * w + j) * n + c < h * w * n"
  using flat_index_less [OF flat_index_less [OF assms(1,2)] assms(3)] .

lemma flat_index3_channel:
  fixes i j c w n :: nat
  assumes "c < n"
  shows "((i * w + j) * n + c) mod n = c"
  using assms by simp

lemma flat_index3_column:
  fixes i j c w n :: nat
  assumes "c < n" and "j < w"
  shows "(((i * w + j) * n + c) div n) mod w = j"
  using assms by simp

lemma flat_index3_row:
  fixes i j c w n :: nat
  assumes "c < n" and "j < w"
  shows "((i * w + j) * n + c) div (n * w) = i"
proof -
  have "((i * w + j) * n + c) div (n * w) = (((i * w + j) * n + c) div n) div w"
    by (simp add: div_mult2_eq)
  also have "\<dots> = (i * w + j) div w" using assms(1) by simp
  also have "\<dots> = i" using assms(2) by simp
  finally show ?thesis .
qed

section \<open>Facts about the segmentation colors\<close>

lemma segmap_step_shape:
  "shape (segmap_step labels x acc) = shape acc \<and>
   length (data (segmap_step labels x acc)) = length (data acc)"
  by (cases x) (simp add: segmap_step_def assign_mask_def)

lemma segmap_fold_shape:
  "shape (fold (segmap_step labels) m acc) = shape acc \<and>
   length (data (fold (segmap_step labels) m acc)) = length (data acc)"
  by (induction m arbitrary: acc) (simp_all add: segmap_step_shape)

lemma segmap_step_nth:
  assumes "p * 3 + c < length (data acc)" and "c < 3"
  shows "data (segmap_step labels (ident, r, g, b) acc) ! (p * 3 + c)
           = (if data labels ! p = ident then of_int ([r, g, b] ! c) / 255
              else data acc ! (p * 3 + c))"
proof -
  from assms(2) have "(p * 3 + c) div 3 = p" and "(p * 3 + c) mod 3 = c"
    by simp_all
  moreover from assms(2) have "map (\<lambda>v. rat_of_int v / 255) [r, g, b] ! c = of_int ([r, g, b] ! c) / 255"
    by (simp add: nth_Cons split: nat.splits)
  ultimately show ?thesis
    using assms(1) by (simp add: segmap_step_def assign_mask_def del: upt_Suc)
qed

lemma segmap_fold_nth:
  assumes "distinct (map fst m)" and "p * 3 + c < length (data acc)" and "c < 3"
  shows "data (fold (segmap_step labels) m acc) ! (p * 3 + c)
           = (case map_of m (data labels ! p) of
                None \<Rightarrow> data acc ! (p * 3 + c)
              | Some (r, g, b) \<Rightarrow> of_int ([r, g, b] ! c) / 255)"
  using assms
proof (induction m arbitrary: acc)
  case Nil
  then show ?case by simp
next
  case (Cons x m)
  obtain ident r g b where x: "x = (ident, r, g, b)" by (cases x) auto
  from Cons.prems have dist: "distinct (map fst m)" and fresh: "ident \<notin> fst ` set m"
    by (simp_all add: x)
  have len: "p * 3 + c < length (data (segmap_step labels x acc))"
    using Cons.prems(2) by (simp add: segmap_step_shape)
  have "data (fold (segmap_step labels) (x # m) acc) ! (p * 3 + c)
          = (case map_of m (data labels ! p) of
               None \<Rightarrow> data (segmap_step labels x acc) ! (p * 3 + c)
             | Some (r, g, b) \<Rightarrow> of_int ([r, g, b] ! c) / 255)"
    using Cons.IH [OF dist len Cons.prems(3)] by simp
  also have "\<dots> = (case map_of (x # m) (data labels ! p) of
                None \<Rightarrow> data acc ! (p * 3 + c)
              | Some (r, g, b) \<Rightarrow> of_int ([r, g, b] ! c) / 255)"
  proof (cases "data labels ! p = ident")
    case True
    with fresh have "map_of m (data labels ! p) = None"
      by (simp add: map_of_eq_None_iff)
    with True show ?thesis
      using segmap_step_nth [OF Cons.prems(2,3), of labels ident r g b] by (simp add: x)
  next
    case False
    then show ?thesis
      using segmap_step_nth [OF Cons.prems(2,3), of labels ident r g b]
      by (simp add: x split: option.splits)
  qed
  finally show ?case .
qed

section \<open>Facts about the batch\<close>

lemma ndarray_at_Ref:
  "r < length h \<Longrightarrow> h ! r = NDArray a \<Longrightarrow> ndarray_at h (Ref r) = Some (r, a)"
  by (simp add: ndarray_at_def)

lemma add_on_array:
  assumes "r < length h" and "h ! r = NDArray a"
  shows "add env h (Ref r) left top' right bottom label color
           = (h[r := NDArray (fst (add_core env a left top' right bottom label color))],
              snd (add_core env a left top' right bottom label color))"
  using ndarray_at_Ref [OF assms] by (rule add_unfold)

text \<open>The loop on the heap is the drawing on the array the working reference points to.\<close>

lemma plot_loop_annotate_all:
  assumes "combined < length h" and "h ! combined = NDArray a"
  shows "plot_loop env lm colors combined i boxes h
           = (h[combined := NDArray (fst (annotate_all env lm colors i boxes a))],
              snd (annotate_all env lm colors i boxes a))"
  using assms
proof (induction boxes arbitrary: i h a)
  case Nil
  then have "h[combined := NDArray a] = h"
    by (metis list_update_id)
  then show ?case by simp
next
  case (Cons box boxes)
  have same: "h[combined := NDArray a] = h"
    using Cons.prems by (metis list_update_id)
  have step: "plot_loop env lm colors combined (Suc i) boxes (h[combined := NDArray a'])
                = (h[combined := NDArray (fst (annotate_all env lm colors (Suc i) boxes a'))],
                   snd (annotate_all env lm colors (Suc i) boxes a'))" for a'
    using Cons.IH [of "h[combined := NDArray a']" a' "Suc i"] Cons.prems(1) by simp
  show ?case
  proof (cases "py_plus (plus_other env) (box_x box) (box_w box)")
    case (Inl e)
    then show ?thesis by (simp add: same)
  next
    case right: (Inr right)
    show ?thesis
    proof (cases "py_plus (plus_other env) (box_y box) (box_h box)")
      case (Inl e)
      then show ?thesis using right by (simp add: same)
    next
      case bottom: (Inr bottom)
      show ?thesis
      proof (cases "iloc lm (box_label box)")
        case (Inl e)
        then show ?thesis using right bottom by (simp add: same)
      next
        case (Inr label)
        show ?thesis
        proof (cases "not_colors colors")
          case True
          then show ?thesis
            using right bottom Inr add_on_array [OF Cons.prems] step
            by (simp add: Let_def same split: prod.splits sum.splits)
        next
          case False
          then show ?thesis
            using right bottom Inr add_on_array [OF Cons.prems] step
            by (simp add: Let_def same split: prod.splits sum.splits)
        qed
      qed
    qed
  qed
qed

lemma plot_bboxes_annotate_all:
  assumes "img < length h"
  shows "plot_bboxes env h img boxes lm colors
           = (case annotate_all env lm colors 0 boxes (pixels_of (h ! img)) of
                (a', Inl e) \<Rightarrow> (h @ [h ! img, NDArray a'], Inl e)
              | (a', Inr u) \<Rightarrow> (h @ [h ! img, NDArray a', PILImage a'], Inr (length h + 2)))"
proof -
  let ?a = "pixels_of (h ! img)"
  let ?h2 = "h @ [h ! img, NDArray ?a]"
  have loop: "plot_loop env lm colors (Suc (length h)) 0 boxes ?h2
                = (?h2[Suc (length h) := NDArray (fst (annotate_all env lm colors 0 boxes ?a))],
                   snd (annotate_all env lm colors 0 boxes ?a))"
    by (rule plot_loop_annotate_all) (simp_all add: nth_append)
  have upd: "?h2[Suc (length h) := x] = h @ [h ! img, x]" for x
    by (simp add: list_update_append)
  show ?thesis
    using assms
    by (simp add: plot_bboxes_def alloc_def nth_append loop upd split: prod.splits sum.splits)
qed

section \<open>Facts about the pixels\<close>

lemma get_label_image_shape:
  assumes "get_label_image env text [f0, f1, f2] [b0, b1, b2] = Inr L"
  shows "shape L = [snd (mask_size (getmask env text)), fst (mask_size (getmask env text)), 3]"
proof -
  let ?bw = "\<lparr>shape = [snd (mask_size (getmask env text)), fst (mask_size (getmask env text))],
              data = mask_pixels (getmask env text)\<rparr>"
  have "\<exists>d. concatenate [expand_dims (color_image ?bw f0 b0), expand_dims (color_image ?bw f1 b1),
                           expand_dims (color_image ?bw f2 b2)]
               = Inr \<lparr>shape = [3, snd (mask_size (getmask env text)), fst (mask_size (getmask env text))],
                      data = d\<rparr>"
    by (simp add: concatenate_def expand_dims_def color_image_def)
  then obtain d where
    "concatenate [expand_dims (color_image ?bw f0 b0), expand_dims (color_image ?bw f1 b1),
                  expand_dims (color_image ?bw f2 b2)]
       = Inr \<lparr>shape = [3, snd (mask_size (getmask env text)), fst (mask_size (getmask env text))],
              data = d\<rparr>" ..
  with assms show ?thesis
    by (auto simp: get_label_image_def Let_def transpose_120_def split: if_splits)
qed

lemma pixel_coordinates:
  fixes i j c W :: nat
  assumes "j < W" and "c < 3"
  shows "((i * W + j) * 3 + c) div (3 * W) = i"
    and "(((i * W + j) * 3 + c) div 3) mod W = j"
    and "((i * W + j) * 3 + c) mod 3 = c"
  using assms(2,1) apply (rule flat_index3_row)
  using assms(2,1) apply (rule flat_index3_column)
  using assms(2) apply (rule flat_index3_channel)
  done

lemma cv2_rectangle_nth:
  assumes "cv2_rectangle env img pt1 pt2 color thickness = Inr img'"
    and "shape img = [H, W, 3]" and "length (data img) = H * W * 3" and "length color = 3"
    and "i < H" and "j < W" and "c < 3"
  shows "data img' ! ((i * W + j) * 3 + c)
           = (if (if thickness < 0 then filled_box pt1 pt2 else thick_outline env pt1 pt2 thickness)
                   (int j, int i)
              then word_of_int (color ! c)
              else data img ! ((i * W + j) * 3 + c))"
proof -
  have lt: "(i * W + j) * 3 + c < length (data img)"
    using flat_index3_less [OF assms(5,6,7)] by (simp only: assms(3))
  from assms(1,2) have "img' = paint img W 3
      (if thickness < 0 then filled_box pt1 pt2 else thick_outline env pt1 pt2 thickness) color"
    by (auto simp: cv2_rectangle_def image_dims_def split: if_splits)
  then show ?thesis
    using lt assms(4,7) pixel_coordinates [OF assms(6,7), of i]
    by (simp add: paint_def del: upt_Suc distrib_right_numeral distrib_left_numeral)
qed

lemma slice_bounds_inside:
  assumes "0 \<le> start" and "0 \<le> stop"
  shows "slice_bounds start stop n = (nat (min start (int n)), nat (min stop (int n)))"
  using assms by (auto simp: slice_bounds_def Let_def min_def max_def)

lemma setitem_nth:
  assumes "setitem img t b l r val = Inr img'"
    and "shape img = [H, W, 3]" and "length (data img) = H * W * 3"
    and "shape val = [vh, vw, 3]"
    and "0 \<le> t" and "0 \<le> l" and "b = t + int vh" and "r = l + int vw"
    and "i < H" and "j < W" and "c < 3"
  shows "data img' ! ((i * W + j) * 3 + c)
           = (if t \<le> int i \<and> int i < b \<and> l \<le> int j \<and> int j < r
              then to_uint8 (data val ! (((i - nat t) * vw + (j - nat l)) * 3 + c))
              else data img ! ((i * W + j) * 3 + c))"
proof -
  let ?r0 = "nat (min t (int H))" and ?r1 = "nat (min b (int H))"
  let ?c0 = "nat (min l (int W))" and ?c1 = "nat (min r (int W))"
  let ?k = "(i * W + j) * 3 + c"
  have lt: "?k < length (data img)"
    using flat_index3_less [OF assms(9,10,11)] by (simp only: assms(3))
  have rows: "slice_bounds t b H = (?r0, ?r1)" and cols: "slice_bounds l r W = (?c0, ?c1)"
    using assms(5,6,7,8) by (simp_all add: slice_bounds_inside)
  have inside: "(?r0 \<le> i \<and> i < ?r1 \<and> ?c0 \<le> j \<and> j < ?c1)
                  \<longleftrightarrow> (t \<le> int i \<and> int i < b \<and> l \<le> int j \<and> int j < r)"
    using assms(5,6,9,10) by auto
  have src: "((if vh = 1 then 0 else i - ?r0) * vw + (if vw = 1 then 0 else j - ?c0)) * 3 + c
               = ((i - nat t) * vw + (j - nat l)) * 3 + c"
    if "t \<le> int i \<and> int i < b \<and> l \<le> int j \<and> int j < r"
  proof -
    from that assms(5,7,9) have "(if vh = 1 then 0 else i - ?r0) = i - nat t"
      by (auto simp: min_def)
    moreover from that assms(6,8,10) have "(if vw = 1 then 0 else j - ?c0) = j - nat l"
      by (auto simp: min_def)
    ultimately show ?thesis by simp
  qed
  from assms(1,2,4) rows cols have "data img' = map (\<lambda>k. let i = k div (3 * W); j = (k div 3) mod W; c = k mod 3
               in if ?r0 \<le> i \<and> i < ?r1 \<and> ?c0 \<le> j \<and> j < ?c1
                  then to_uint8 (data val !
                         (((if vh = 1 then 0 else i - ?r0) * vw
                           + (if vw = 1 then 0 else j - ?c0)) * 3
                          + (if (3::nat) = 1 then 0 else c)))
                  else data img ! k) [0..<length (data img)]"
    by (auto simp: setitem_def split: if_splits)
  then have "data img' ! ?k
      = (if ?r0 \<le> i \<and> i < ?r1 \<and> ?c0 \<le> j \<and> j < ?c1
         then to_uint8 (data val !
                (((if vh = 1 then 0 else i - ?r0) * vw + (if vw = 1 then 0 else j - ?c0)) * 3 + c))
         else data img ! ?k)"
    using lt pixel_coordinates [OF assms(10,11), of i] by (simp add: Let_def del: upt_Suc distrib_right_numeral distrib_left_numeral)
  then show ?thesis
    using inside src by simp
qed

lemma label_geometry_facts:
  fixes W left top' lh lw :: int
  assumes "0 \<le> lh" and "0 \<le> lw"
  shows "label_left (label_geometry W left top' lh lw) = rectangle_left (label_geometry W left top' lh lw) + 1"
    and "label_right (label_geometry W left top' lh lw) = label_left (label_geometry W left top' lh lw) + lw"
    and "label_right (label_geometry W left top' lh lw) = rectangle_right (label_geometry W left top' lh lw)"
    and "label_bottom (label_geometry W left top' lh lw) = label_top (label_geometry W left top' lh lw) + lh"
    and "0 \<le> rectangle_left (label_geometry W left top' lh lw)"
    and "rectangle_left (label_geometry W left top' lh lw) \<le> rectangle_right (label_geometry W left top' lh lw)"
    and "rectangle_top (label_geometry W left top' lh lw) \<le> rectangle_bottom (label_geometry W left top' lh lw)"
    and "top' < 1 + lh \<Longrightarrow>
           label_top (label_geometry W left top' lh lw) = rectangle_top (label_geometry W left top' lh lw) \<and>
           label_bottom (label_geometry W left top' lh lw) = rectangle_bottom (label_geometry W left top' lh lw) - 1"
    and "1 + lh \<le> top' \<Longrightarrow>
           label_top (label_geometry W left top' lh lw) = rectangle_top (label_geometry W left top' lh lw) + 1 \<and>
           label_bottom (label_geometry W left top' lh lw) = rectangle_bottom (label_geometry W left top' lh lw)"
    and "0 \<le> top' \<Longrightarrow> 0 \<le> label_top (label_geometry W left top' lh lw)"
  using assms by (auto simp: label_geometry_def Let_def)

lemma draw_labelled:
  assumes "draw env a l t r b label color ct = (a', Inr v)" and "truthy label"
    and "shape a = [H, W, C]"
  shows "\<exists>a1 L lh lw n a2.
           cv2_rectangle env a (l, t) (r, b) color 15 = Inr a1 \<and>
           get_label_image env (str_of label) ct color = Inr L \<and> shape L = [lh, lw, n] \<and>
           cv2_rectangle env a1
               (rectangle_left (label_geometry (int W) l t (int lh) (int lw)),
                rectangle_top (label_geometry (int W) l t (int lh) (int lw)))
               (rectangle_right (label_geometry (int W) l t (int lh) (int lw)),
                rectangle_bottom (label_geometry (int W) l t (int lh) (int lw))) color (- 1) = Inr a2 \<and>
           setitem a2 (label_top (label_geometry (int W) l t (int lh) (int lw)))
               (label_bottom (label_geometry (int W) l t (int lh) (int lw)))
               (label_left (label_geometry (int W) l t (int lh) (int lw)))
               (label_right (label_geometry (int W) l t (int lh) (int lw))) L = Inr a'"
proof -
  from assms(1) obtain a1 where a1: "cv2_rectangle env a (l, t) (r, b) color 15 = Inr a1"
    by (auto simp: draw_def split: sum.splits)
  then have sh1: "shape a1 = [H, W, C]"
    using assms(3) by (auto dest: cv2_rectangle_shape)
  from assms(1,2) a1 sh1 obtain L where L: "get_label_image env (str_of label) ct color = Inr L"
    by (auto simp: draw_def split: sum.splits)
  from assms(1,2) a1 sh1 L obtain lh lw n where shL: "shape L = [lh, lw, n]"
    by (auto simp: draw_def Let_def split: sum.splits list.splits)
  from assms(1,2) a1 sh1 L shL show ?thesis
    by (auto simp: draw_def Let_def split: sum.splits)
qed

lemma rgb_to_bgr_list: "\<exists>c0 c1 c2. rgb_to_bgr c = [c0, c1, c2]"
  by (cases c) (simp add: rgb_to_bgr_def)

lemma add_core_labelled:
  assumes "add_core env a left0 top0 right0 bottom0 (PyStr text) color = (a', Inr v)"
    and "to_ints env left0 top0 right0 bottom0 = Inr (left, top', right, bottom)"
  shows "\<exists>fg tx. map_of COLOR_NAME_TO_RGB (str_of (resolve_color (PyStr text) color)) = Some (fg, tx) \<and>
                 draw env a left top' right bottom (PyStr text) (rgb_to_bgr fg) (rgb_to_bgr tx)
                   = (a', Inr v)"
  using assms
  by (auto simp: add_core_def Let_def split: if_splits option.splits)

lemma cv2_rectangle_paint_nth:
  assumes "cv2_rectangle env a p1 p2 color th = Inr a1" and "image_dims a = Some (H, W, C)"
    and "k < length (data a)"
  shows "data a1 ! k
           = (if (if th < 0 then filled_box p1 p2 else thick_outline env p1 p2 th)
                   (int ((k div C) mod W), int (k div (C * W)))
              then (if k mod C < length color then word_of_int (color ! (k mod C)) else 0)
              else data a ! k)"
proof -
  from assms(1,2) have "a1 = paint a W C
      (if th < 0 then filled_box p1 p2 else thick_outline env p1 p2 th) color"
    by (auto simp: cv2_rectangle_def split: if_splits)
  then show ?thesis
    using assms(3) by (simp add: paint_def del: upt_Suc)
qed

lemma add_core_returns:
  assumes "add_core env a left top' right bottom label color = (a', Inr v)"
  shows "\<exists>l t rt b fg tx.
           to_ints env left top' right bottom = Inr (l, t, rt, b) \<and>
           map_of COLOR_NAME_TO_RGB (str_of (resolve_color label color)) = Some (fg, tx) \<and>
           draw env a l t rt b label (rgb_to_bgr fg) (rgb_to_bgr tx) = (a', Inr v)"
  using assms
  by (auto simp: add_core_def Let_def split: sum.splits if_splits option.splits prod.splits)

lemma draw_outline:
  assumes "draw env a l t r b label color ct = (a', Inr v)"
  shows "\<exists>H W C a1. image_dims a = Some (H, W, C) \<and>
           cv2_rectangle env a (l, t) (r, b) color 15 = Inr a1 \<and>
           (truthy label \<longrightarrow> shape a = [H, W, C]) \<and> (\<not> truthy label \<longrightarrow> a' = a1)"
proof -
  from assms obtain a1 where a1: "cv2_rectangle env a (l, t) (r, b) color 15 = Inr a1"
    by (auto simp: draw_def split: sum.splits)
  then obtain H W C where dims: "image_dims a = Some (H, W, C)"
    by (cases "image_dims a") (auto simp: cv2_rectangle_def)
  have plain: "a' = a1" if "\<not> truthy label"
    using assms a1 that by (simp add: draw_def)
  have cube: "shape a = [H, W, C]" if "truthy label"
  proof -
    from a1 have "shape a1 = shape a"
      by (auto dest: cv2_rectangle_shape)
    with assms a1 that obtain x y z where "shape a = [x, y, z]"
      by (auto simp: draw_def split: list.splits)
    with dims show ?thesis
      by (auto simp: image_dims_def split: if_splits)
  qed
  from dims a1 plain cube show ?thesis by blast
qed

section \<open>Concrete runs\<close>

text \<open>Calls in the small environment, computed from the definitions.\<close>

lemma car_index: "int16 (hexdigest (encode ''car'')) mod 15 = 5"
  by code_simp

lemma demo_plain_box:
  "add demo_env [NDArray (black 2 2)] (Ref 0) (PyInt 0) (PyInt 0) (PyInt 1) (PyInt 1) PyNone (PyStr ''red'')
     = ([NDArray \<lparr>shape = [2, 2, 3], data = [255, 47, 65, 255, 47, 65, 255, 47, 65, 255, 47, 65]\<rparr>],
        Inr (Imm PyNone))"
  by code_simp

lemma demo_bad_coordinate:
  "add demo_env [NDArray (black 2 2)] (Ref 0) (PyStr ''x'') (PyInt 0) (PyInt 1) (PyInt 1)
       PyNone (PyStr ''red'')
     = ([NDArray (black 2 2)], Inl (TypeError '''left', 'top', 'right' & 'bottom' must be a number''))"
  by code_simp

lemma demo_labelled_box:
  "add demo_env [NDArray (black 4 4)] (Ref 0) (PyInt 0) (PyInt 3) (PyInt 3) (PyInt 3)
       (PyStr ''ab'') (PyStr ''teal'') =
   ([NDArray \<lparr>shape = [4, 4, 3],
                data = [15, 205, 202, 15, 205, 202, 15, 205, 202, 15, 205, 202,
                        15, 205, 202, 0, 0, 0, 0, 0, 0, 15, 205, 202,
                        15, 205, 202, 15, 205, 202, 15, 205, 202, 15, 205, 202,
                        15, 205, 202, 15, 205, 202, 15, 205, 202, 15, 205, 202]\<rparr>],
    Inr (Imm PyNone))"
  by code_simp

lemma demo_label_image:
  "get_label_image (demo_env\<lparr>getmask := \<lambda>t. \<lparr>mask_size = (2, 1), mask_pixels = [128, 51]\<rparr>\<rparr>)
       ''ab'' [255, 20, 0] [0, 10, 0]
     = Inr \<lparr>shape = [1, 2, 3], data = [128, 766 / 51, 0, 51, 12, 0]\<rparr>"
  by code_simp

lemma demo_segmap:
  "decode_segmap [(1, (255, 0, 51)), (2, (0, 102, 0))] \<lparr>shape = [2, 2], data = [1, 2, 7, 1]\<rparr> ''cityscapes''
     = Inr \<lparr>shape = [2, 2, 3], data = [1, 0, 1 / 5, 0, 2 / 5, 0, 0, 0, 0, 1, 0, 1 / 5]\<rparr>"
  by code_simp

lemma demo_plot_bboxes:
  "plot_bboxes demo_env [PILImage (black 4 4)] 0
       [\<lparr>box_x = PyInt 0, box_y = PyInt 3, box_w = PyInt 3, box_h = PyInt 0, box_label = 0, box_score = 9 / 10\<rparr>,
        \<lparr>box_x = PyInt 1, box_y = PyInt 1, box_w = PyInt 1, box_h = PyInt 1, box_label = - 1, box_score = 1 / 2\<rparr>]
       [''ab'', ''a''] None
     = ([PILImage (black 4 4), PILImage (black 4 4),
         NDArray \<lparr>shape = [4, 4, 3],
                  data = [0, 38, 63, 0, 38, 63, 0, 38, 63, 0, 38, 63,
                          255, 216, 70, 103, 87, 28, 255, 216, 70, 0, 38, 63,
                          255, 216, 70, 255, 216, 70, 255, 216, 70, 0, 38, 63,
                          255, 216, 70, 255, 216, 70, 255, 216, 70, 0, 38, 63]\<rparr>,
         PILImage \<lparr>shape = [4, 4, 3],
                  data = [0, 38, 63, 0, 38, 63, 0, 38, 63, 0, 38, 63,
                          255, 216, 70, 103, 87, 28, 255, 216, 70, 0, 38, 63,
                          255, 216, 70, 255, 216, 70, 255, 216, 70, 0, 38, 63,
                          255, 216, 70, 255, 216, 70, 255, 216, 70, 0, 38, 63]\<rparr>],
        Inr 3)"
  by code_simp

lemma demo_flipped_label:
  "add demo_env [NDArray (black 6 8)] (Ref 0) (PyInt 1) (PyInt 1) (PyInt 5) (PyInt 5)
       (PyStr ''ab'') (PyStr ''red'')
     = ([NDArray \<lparr>shape = [6, 8, 3],
                  data = [0, 0, 0, 0, 0, 0, 0, 0, 0, 0, 0, 0, 0, 0, 0, 0, 0, 0, 0, 0, 0, 0, 0, 0,
                          255, 47, 65, 131, 0, 17, 131, 0, 17, 255, 47, 65,
                          255, 47, 65, 255, 47, 65, 0, 0, 0, 0, 0, 0,
                          255, 47, 65, 255, 47, 65, 255, 47, 65, 255, 47, 65,
                          0, 0, 0, 255, 47, 65, 0, 0, 0, 0, 0, 0,
                          255, 47, 65, 255, 47, 65, 255, 47, 65, 255, 47, 65,
                          0, 0, 0, 255, 47, 65, 0, 0, 0, 0, 0, 0,
                          255, 47, 65, 255, 47, 65, 255, 47, 65, 255, 47, 65,
                          0, 0, 0, 255, 47, 65, 0, 0, 0, 0, 0, 0,
                          0, 0, 0, 255, 47, 65, 255, 47, 65, 255, 47, 65,
                          255, 47, 65, 255, 47, 65, 0, 0, 0, 0, 0, 0]\<rparr>],
        Inr (Imm PyNone))"
  by code_simp

section \<open>The claims\<close>

text \<open>
  Claim C1, as amended. \<^verbatim>\<open>add\<close> ends without a \<^verbatim>\<open>return\<close> statement. Every call that returns
  has written the array the image argument refers to where it is (the same reference, the
  same shape, every other object of the heap untouched, nothing allocated) and returns
  \<^verbatim>\<open>None\<close>, not the image. What is written is the outline of the box, of thickness 15 and in
  the color resolved: every element of the array on a pixel of the outline takes its
  component of the color and every other element is kept. For a falsy label that is the
  array after the call; for a truthy label the label rectangle is then filled and the
  raster of the text copied into it. A call with an array OpenCV accepts, coordinates that
  convert to C integers, a falsy label and a palette name as color always returns.
\<close>

theorem add_in_place_returns_None:
  "(add env h img left top' right bottom label color = (h', Inr v) \<longrightarrow>
      v = Imm PyNone \<and>
      (\<exists>r a a' l t rt b fg tx H W C a1.
          img = Ref r \<and> r < length h \<and> h ! r = NDArray a \<and> h' = h[r := NDArray a'] \<and>
          shape a' = shape a \<and> length (data a') = length (data a) \<and>
          to_ints env left top' right bottom = Inr (l, t, rt, b) \<and>
          map_of COLOR_NAME_TO_RGB (str_of (resolve_color label color)) = Some (fg, tx) \<and>
          image_dims a = Some (H, W, C) \<and>
          cv2_rectangle env a (l, t) (rt, b) (rgb_to_bgr fg) 15 = Inr a1 \<and>
          (\<forall>k < length (data a).
             data a1 ! k
               = (if thick_outline env (l, t) (rt, b) 15 (int ((k div C) mod W), int (k div (C * W)))
                  then (if k mod C < 3 then word_of_int (rgb_to_bgr fg ! (k mod C)) else 0)
                  else data a ! k)) \<and>
          (if truthy label
           then \<exists>L lh lw n g a2.
                  get_label_image env (str_of label) (rgb_to_bgr tx) (rgb_to_bgr fg) = Inr L \<and>
                  shape L = [lh, lw, n] \<and>
                  g = label_geometry (int W) l t (int lh) (int lw) \<and>
                  cv2_rectangle env a1 (rectangle_left g, rectangle_top g)
                      (rectangle_right g, rectangle_bottom g) (rgb_to_bgr fg) (- 1) = Inr a2 \<and>
                  setitem a2 (label_top g) (label_bottom g) (label_left g) (label_right g) L
                    = Inr a'
           else a' = a1))) \<and>
   (ndarray_at h img = Some (r, a) \<and> image_dims a \<noteq> None \<and>
    to_ints env left top' right bottom = Inr (l, t, rt, b) \<and>
    in_c_int l \<and> in_c_int t \<and> in_c_int rt \<and> in_c_int b \<and>
    \<not> truthy label \<and> name \<in> set COLOR_NAMES \<longrightarrow>
      (\<exists>a'. add env h img left top' right bottom label (PyStr name)
               = (h[r := NDArray a'], Inr (Imm PyNone))))"
proof (intro conjI impI)
  assume ret: "add env h img left top' right bottom label color = (h', Inr v)"
  then obtain r a where at: "ndarray_at h img = Some (r, a)"
    by (cases "ndarray_at h img") (auto simp: add_not_array)
  obtain a' out where core: "add_core env a left top' right bottom label color = (a', out)"
    by (cases "add_core env a left top' right bottom label color")
  from ret at core have h': "h' = h[r := NDArray a']" and out: "out = Inr v"
    by (simp_all add: add_unfold)
  from core out show "v = Imm PyNone"
    by (auto dest: add_core_returns_None)
  from at have ref: "img = Ref r" "r < length h" "h ! r = NDArray a"
    by (auto dest: ndarray_at_SomeD)
  from core have keep: "shape a' = shape a" "length (data a') = length (data a)"
    by (auto dest: add_core_shape)
  from core out have "add_core env a left top' right bottom label color = (a', Inr v)"
    by simp
  from add_core_returns [OF this] obtain l t rt b fg tx
    where conv: "to_ints env left top' right bottom = Inr (l, t, rt, b)"
      and look: "map_of COLOR_NAME_TO_RGB (str_of (resolve_color label color)) = Some (fg, tx)"
      and drw: "draw env a l t rt b label (rgb_to_bgr fg) (rgb_to_bgr tx) = (a', Inr v)"
    by blast
  from draw_outline [OF drw] obtain H W C a1
    where dims: "image_dims a = Some (H, W, C)"
      and a1: "cv2_rectangle env a (l, t) (rt, b) (rgb_to_bgr fg) 15 = Inr a1"
      and cube: "truthy label \<longrightarrow> shape a = [H, W, C]"
      and plain: "\<not> truthy label \<longrightarrow> a' = a1"
    by blast
  have three: "length (rgb_to_bgr fg) = 3"
    using rgb_to_bgr_list [of fg] by auto
  have outline: "\<forall>k < length (data a).
      data a1 ! k
        = (if thick_outline env (l, t) (rt, b) 15 (int ((k div C) mod W), int (k div (C * W)))
           then (if k mod C < 3 then word_of_int (rgb_to_bgr fg ! (k mod C)) else 0)
           else data a ! k)"
    using cv2_rectangle_paint_nth [OF a1 dims] by (simp add: three)
  have rest: "if truthy label
      then \<exists>L lh lw n g a2.
             get_label_image env (str_of label) (rgb_to_bgr tx) (rgb_to_bgr fg) = Inr L \<and>
             shape L = [lh, lw, n] \<and>
             g = label_geometry (int W) l t (int lh) (int lw) \<and>
             cv2_rectangle env a1 (rectangle_left g, rectangle_top g)
                 (rectangle_right g, rectangle_bottom g) (rgb_to_bgr fg) (- 1) = Inr a2 \<and>
             setitem a2 (label_top g) (label_bottom g) (label_left g) (label_right g) L
               = Inr a'
      else a' = a1"
  proof (cases "truthy label")
    case False
    with plain show ?thesis by simp
  next
    case True
    with cube have "shape a = [H, W, C]" by simp
    from draw_labelled [OF drw True this] a1 True show ?thesis
      by auto
  qed
  from ref h' keep conv look dims a1 outline rest
  show "\<exists>r a a' l t rt b fg tx H W C a1.
          img = Ref r \<and> r < length h \<and> h ! r = NDArray a \<and> h' = h[r := NDArray a'] \<and>
          shape a' = shape a \<and> length (data a') = length (data a) \<and>
          to_ints env left top' right bottom = Inr (l, t, rt, b) \<and>
          map_of COLOR_NAME_TO_RGB (str_of (resolve_color label color)) = Some (fg, tx) \<and>
          image_dims a = Some (H, W, C) \<and>
          cv2_rectangle env a (l, t) (rt, b) (rgb_to_bgr fg) 15 = Inr a1 \<and>
          (\<forall>k < length (data a).
             data a1 ! k
               = (if thick_outline env (l, t) (rt, b) 15 (int ((k div C) mod W), int (k div (C * W)))
                  then (if k mod C < 3 then word_of_int (rgb_to_bgr fg ! (k mod C)) else 0)
                  else data a ! k)) \<and>
          (if truthy label
           then \<exists>L lh lw n g a2.
                  get_label_image env (str_of label) (rgb_to_bgr tx) (rgb_to_bgr fg) = Inr L \<and>
                  shape L = [lh, lw, n] \<and>
                  g = label_geometry (int W) l t (int lh) (int lw) \<and>
                  cv2_rectangle env a1 (rectangle_left g, rectangle_top g)
                      (rectangle_right g, rectangle_bottom g) (rgb_to_bgr fg) (- 1) = Inr a2 \<and>
                  setitem a2 (label_top g) (label_bottom g) (label_left g) (label_right g) L
                    = Inr a'
           else a' = a1)"
    by blast
next
  assume valid: "ndarray_at h img = Some (r, a) \<and> image_dims a \<noteq> None \<and>
    to_ints env left top' right bottom = Inr (l, t, rt, b) \<and>
    in_c_int l \<and> in_c_int t \<and> in_c_int rt \<and> in_c_int b \<and>
    \<not> truthy label \<and> name \<in> set COLOR_NAMES"
  then obtain c ct where look: "map_of COLOR_NAME_TO_RGB name = Some (c, ct)"
    using palette_lookup by blast
  from valid have name: "truthy (PyStr name)"
    by (auto dest: palette_names_nonempty)
  from valid obtain H W C where dims: "image_dims a = Some (H, W, C)"
    by auto
  have "snd (add_core env a left top' right bottom label (PyStr name)) = Inr (Imm PyNone)"
    using valid name look dims
    by (simp add: add_core_def resolve_color_explicit draw_def cv2_rectangle_def)
  with valid show "\<exists>a'. add env h img left top' right bottom label (PyStr name)
               = (h[r := NDArray a'], Inr (Imm PyNone))"
    by (auto simp: add_unfold)
qed

theorem add_in_place_returns_None_witness:
  "add demo_env [NDArray (black 2 2)] (Ref 0) (PyInt 0) (PyInt 0) (PyInt 1) (PyInt 1) PyNone (PyStr ''red'')
     = ([NDArray \<lparr>shape = [2, 2, 3], data = [255, 47, 65, 255, 47, 65, 255, 47, 65, 255, 47, 65]\<rparr>],
        Inr (Imm PyNone)) \<and>
   cv2_rectangle demo_env (black 2 2) (0, 0) (1, 1) (rgb_to_bgr (255, 47, 65)) 15
     = Inr \<lparr>shape = [2, 2, 3], data = [255, 47, 65, 255, 47, 65, 255, 47, 65, 255, 47, 65]\<rparr> \<and>
   (1::nat) < length (data (black 2 2)) \<and>
   thick_outline demo_env (0, 0) (1, 1) 15 (int ((1 div 3) mod 2), int (1 div (3 * 2))) \<and>
   word_of_int (rgb_to_bgr (255, 47, 65) ! (1 mod 3)) = (47 :: u8) \<and>
   ndarray_at [NDArray (black 2 2)] (Ref 0) = Some (0, black 2 2) \<and>
   image_dims (black 2 2) = Some (2, 2, 3) \<and>
   to_ints demo_env (PyInt 0) (PyInt 0) (PyInt 1) (PyInt 1) = Inr (0, 0, 1, 1) \<and>
   in_c_int 0 \<and> in_c_int 1 \<and> \<not> truthy PyNone \<and> ''red'' \<in> set COLOR_NAMES"
proof -
  let ?P = "\<lparr>shape = [2, 2, 3], data = [255, 47, 65, 255, 47, 65, 255, 47, 65, 255, 47, 65 :: u8]\<rparr>"
  have conv: "to_ints demo_env (PyInt 0) (PyInt 0) (PyInt 1) (PyInt 1) = Inr (0, 0, 1, 1)"
    by (simp add: to_ints_def)
  have look: "map_of COLOR_NAME_TO_RGB (str_of (resolve_color PyNone (PyStr ''red'')))
                = Some ((255, 47, 65), (131, 0, 17))"
    by (simp add: resolve_color_def COLOR_NAME_TO_RGB_def)
  have dims: "image_dims (black 2 2) = Some (2, 2, 3)"
    by (simp add: image_dims_def black_def)
  from add_in_place_returns_None
         [where env = demo_env and h = "[NDArray (black 2 2)]" and img = "Ref 0"
            and left = "PyInt 0" and top' = "PyInt 0" and right = "PyInt 1" and bottom = "PyInt 1"
            and label = PyNone and color = "PyStr ''red''" and h' = "[NDArray ?P]"
            and v = "Imm PyNone" and r = 0 and a = "black 2 2" and l = 0 and t = 0 and rt = 1
            and b = 1 and name = "''red''"]
       demo_plain_box
  have "cv2_rectangle demo_env (black 2 2) (0, 0) (1, 1) (rgb_to_bgr (255, 47, 65)) 15 = Inr ?P"
    by (auto simp: conv look)
  moreover have "thick_outline demo_env (0, 0) (1, 1) 15 (int ((1 div 3) mod 2), int (1 div (3 * 2)))"
    by (simp add: demo_env_def demo_outline_def filled_box_def)
  ultimately show ?thesis
    using demo_plain_box conv dims
    by (simp add: ndarray_at_def black_def in_c_int_def COLOR_NAMES_eq rgb_to_bgr_def)
qed

theorem add_returns_image_counterexample:
  "snd (add demo_env [NDArray (black 2 2)] (Ref 0) (PyInt 0) (PyInt 0) (PyInt 1) (PyInt 1) PyNone (PyStr ''red''))
     = Inr (Imm PyNone) \<and>
   snd (add demo_env [NDArray (black 2 2)] (Ref 0) (PyInt 0) (PyInt 0) (PyInt 1) (PyInt 1) PyNone (PyStr ''red''))
     \<noteq> Inr (Ref 0)"
  by (simp add: demo_plain_box)

text \<open>
  Claim C2, as amended. For every non-empty label string and every falsy color argument
  (\<^verbatim>\<open>None\<close> in particular), the color \<^verbatim>\<open>add\<close> resolves is the palette name at the index
  \<open>int(md5(label.encode()).hexdigest(), 16) mod 15\<close>, and \<^verbatim>\<open>add\<close> draws with the two colors
  the palette gives that name. The name depends on the bytes of the label only, so two
  calls with the same label resolve to the same name. The empty label is excluded: it is
  falsy, line 408 does not resolve a color for it, and the call raises \<^verbatim>\<open>TypeError\<close>.
\<close>

theorem auto_color_md5:
  assumes "s \<noteq> []" and "\<not> truthy color"
  shows "resolve_color (PyStr s) color
           = PyStr (COLOR_NAMES ! nat (int16 (hexdigest (encode s)) mod 15)) \<and>
         (\<exists>c ct. map_of COLOR_NAME_TO_RGB (COLOR_NAMES ! nat (int16 (hexdigest (encode s)) mod 15))
                    = Some (c, ct) \<and>
                  add_core env a left top' right bottom (PyStr s) color
                    = (case to_ints env left top' right bottom of
                         Inl e \<Rightarrow> (a, Inl e)
                       | Inr (l, t, r, b) \<Rightarrow>
                           draw env a l t r b (PyStr s) (rgb_to_bgr c) (rgb_to_bgr ct)))"
proof -
  let ?name = "COLOR_NAMES ! nat (int16 (hexdigest (encode s)) mod 15)"
  have idx: "color_index s = nat (int16 (hexdigest (encode s)) mod 15)"
    by (simp add: color_index_def length_palette)
  have res: "resolve_color (PyStr s) color = PyStr ?name"
    using assms by (simp add: resolve_color_auto idx)
  have "?name \<in> set COLOR_NAMES"
    using color_index_less [of s] by (simp add: idx)
  then obtain c ct where look: "map_of COLOR_NAME_TO_RGB ?name = Some (c, ct)"
    using palette_lookup by blast
  have "add_core env a left top' right bottom (PyStr s) color
          = (case to_ints env left top' right bottom of
               Inl e \<Rightarrow> (a, Inl e)
             | Inr (l, t, r, b) \<Rightarrow> draw env a l t r b (PyStr s) (rgb_to_bgr c) (rgb_to_bgr ct))"
    by (simp add: add_core_def res look split: sum.splits prod.splits)
  with res look show ?thesis by blast
qed

theorem auto_color_md5_witness:
  "''car'' \<noteq> [] \<and> \<not> truthy PyNone \<and> resolve_color (PyStr ''car'') PyNone = PyStr ''green''"
  using auto_color_md5 [where s = "''car''" and color = PyNone] car_index
  by (simp add: COLOR_NAMES_eq)

theorem auto_color_counterexample:
  "resolve_color (PyStr []) PyNone = PyNone \<and>
   resolve_color (PyStr []) PyNone \<noteq> PyStr (COLOR_NAMES ! nat (int16 (hexdigest (encode [])) mod 15)) \<and>
   add demo_env [NDArray (black 2 2)] (Ref 0) (PyInt 0) (PyInt 0) (PyInt 1) (PyInt 1) (PyStr []) PyNone
     = ([NDArray (black 2 2)], Inl (TypeError '''color' must be a str''))"
  by (simp add: resolve_color_def add_def ndarray_at_def add_core_def to_ints_def demo_env_def)

text \<open>
  Claim C3, as amended. The label rectangle starts at a column that is never negative.
  When the rectangle is not wider than the image (\<open>1 + label_width \<le> image_width\<close>) it
  also ends within the image: \<open>rectangle_right \<le> image_width\<close>. Whenever the default
  placement would put the top of the rectangle above row 0, the placement flips: the
  rectangle and the raster start at the top of the box. For a box whose top is not
  negative, no row coordinate of the rectangle or of the raster is negative.
\<close>

theorem label_rectangle_clamped:
  "0 \<le> rectangle_left (label_geometry (int W) left top' (int lh) (int lw)) \<and>
   (1 + int lw \<le> int W \<longrightarrow>
      rectangle_right (label_geometry (int W) left top' (int lh) (int lw)) \<le> int W) \<and>
   (top' - (1 + int lh) < 0 \<longrightarrow>
      rectangle_top (label_geometry (int W) left top' (int lh) (int lw)) = top' \<and>
      rectangle_bottom (label_geometry (int W) left top' (int lh) (int lw)) = top' + int lh + 1 \<and>
      label_top (label_geometry (int W) left top' (int lh) (int lw)) = top') \<and>
   (0 \<le> top' \<longrightarrow>
      0 \<le> rectangle_top (label_geometry (int W) left top' (int lh) (int lw)) \<and>
      0 \<le> label_top (label_geometry (int W) left top' (int lh) (int lw)))"
  by (auto simp: label_geometry_def Let_def)

theorem label_rectangle_clamped_witness:
  "1 + int 2 \<le> int 8 \<and> (1::int) - (1 + int 2) < 0 \<and> (0::int) \<le> 1 \<and>
   rectangle_left (label_geometry 8 7 1 2 2) = 5 \<and>
   rectangle_right (label_geometry 8 7 1 2 2) = 8 \<and>
   rectangle_top (label_geometry 8 7 1 2 2) = 1 \<and>
   rectangle_bottom (label_geometry 8 7 1 2 2) = 4 \<and>
   label_top (label_geometry 8 7 1 2 2) = 1"
  using label_rectangle_clamped [where W = 8 and left = 7 and top' = 1 and lh = 2 and lw = 2]
  by (simp add: label_geometry_def)

theorem label_rectangle_counterexample:
  "add demo_env [NDArray (black 4 2)] (Ref 0) (PyInt 0) (PyInt 3) (PyInt 1) (PyInt 3)
       (PyStr ''abc'') (PyStr ''red'')
     = ([NDArray \<lparr>shape = [4, 2, 3],
                  data = [255, 47, 65, 255, 47, 65, 255, 47, 65, 255, 47, 65, 255, 47, 65,
                          255, 47, 65, 255, 47, 65, 255, 47, 65]\<rparr>],
        Inl (ValueError ''could not broadcast input array'')) \<and>
   rectangle_right (label_geometry 2 0 3 2 3) = 4 \<and>
   \<not> rectangle_right (label_geometry 2 0 3 2 3) \<le> 2 \<and>
   snd (add demo_env [NDArray (black 4 1)] (Ref 0) (PyInt 0) (PyInt 3) (PyInt 0) (PyInt 3)
          (PyStr ''a'') (PyStr ''red'')) = Inr (Imm PyNone) \<and>
   rectangle_right (label_geometry 1 0 3 2 1) = 2 \<and>
   \<not> rectangle_right (label_geometry 1 0 3 2 1) \<le> 1 \<and>
   add demo_env [NDArray (black 6 2)] (Ref 0) (PyInt 0) (PyInt (- 3)) (PyInt 1) (PyInt 1)
       (PyStr ''a'') (PyStr ''red'')
     = ([NDArray \<lparr>shape = [6, 2, 3],
                  data = [255, 47, 65, 255, 47, 65, 255, 47, 65, 255, 47, 65, 0, 0, 0, 0, 0,
                          0, 0, 0, 0, 131, 0, 17, 0, 0, 0, 255, 47, 65, 0, 0, 0, 0, 0, 0]\<rparr>],
        Inr (Imm PyNone)) \<and>
   rectangle_top (label_geometry 2 0 (- 3) 2 1) = - 3 \<and>
   label_top (label_geometry 2 0 (- 3) 2 1) = - 3"
  by code_simp

text \<open>
  Claim C4, as amended. \<^verbatim>\<open>plot_bboxes\<close> leaves every object that existed before the call as
  it was, the caller's image among them, whether the call returns or raises. When it
  returns, the result is a reference to a new image, allocated by the call, whose pixels
  are the caller's pixels with \<^verbatim>\<open>add\<close> applied for every box in order. It does not return for
  every input: it raises exactly when the sum of a corner, the label lookup, the color
  lookup or \<^verbatim>\<open>add\<close> raises for some box, and then no image is returned.
\<close>

theorem plot_bboxes_keeps_original:
  assumes "img < length h"
  shows "take (length h) (fst (plot_bboxes env h img boxes lm colors)) = h \<and>
         fst (plot_bboxes env h img boxes lm colors) ! img = h ! img \<and>
         (\<forall>e. snd (plot_bboxes env h img boxes lm colors) = Inl e \<longleftrightarrow>
                snd (annotate_all env lm colors 0 boxes (pixels_of (h ! img))) = Inl e) \<and>
         (\<forall>r. snd (plot_bboxes env h img boxes lm colors) = Inr r \<longrightarrow>
                length h \<le> r \<and> r < length (fst (plot_bboxes env h img boxes lm colors)) \<and>
                fst (plot_bboxes env h img boxes lm colors) ! r
                  = PILImage (fst (annotate_all env lm colors 0 boxes (pixels_of (h ! img)))) \<and>
                snd (annotate_all env lm colors 0 boxes (pixels_of (h ! img))) = Inr ())"
  using assms
  by (auto simp: plot_bboxes_annotate_all nth_append split: prod.splits sum.splits)

theorem plot_bboxes_keeps_original_witness:
  "0 < length [PILImage (black 4 4)] \<and>
   plot_bboxes demo_env [PILImage (black 4 4)] 0
       [\<lparr>box_x = PyInt 0, box_y = PyInt 3, box_w = PyInt 3, box_h = PyInt 0, box_label = 0, box_score = 9 / 10\<rparr>,
        \<lparr>box_x = PyInt 1, box_y = PyInt 1, box_w = PyInt 1, box_h = PyInt 1, box_label = - 1, box_score = 1 / 2\<rparr>]
       [''ab'', ''a''] None
     = ([PILImage (black 4 4), PILImage (black 4 4),
         NDArray \<lparr>shape = [4, 4, 3],
                  data = [0, 38, 63, 0, 38, 63, 0, 38, 63, 0, 38, 63,
                          255, 216, 70, 103, 87, 28, 255, 216, 70, 0, 38, 63,
                          255, 216, 70, 255, 216, 70, 255, 216, 70, 0, 38, 63,
                          255, 216, 70, 255, 216, 70, 255, 216, 70, 0, 38, 63]\<rparr>,
         PILImage \<lparr>shape = [4, 4, 3],
                  data = [0, 38, 63, 0, 38, 63, 0, 38, 63, 0, 38, 63,
                          255, 216, 70, 103, 87, 28, 255, 216, 70, 0, 38, 63,
                          255, 216, 70, 255, 216, 70, 255, 216, 70, 0, 38, 63,
                          255, 216, 70, 255, 216, 70, 255, 216, 70, 0, 38, 63]\<rparr>],
        Inr 3) \<and>
   annotate_all demo_env [''ab'', ''a''] None 0
       [\<lparr>box_x = PyInt 0, box_y = PyInt 3, box_w = PyInt 3, box_h = PyInt 0, box_label = 0, box_score = 9 / 10\<rparr>,
        \<lparr>box_x = PyInt 1, box_y = PyInt 1, box_w = PyInt 1, box_h = PyInt 1, box_label = - 1, box_score = 1 / 2\<rparr>]
       (black 4 4)
     = (\<lparr>shape = [4, 4, 3],
                  data = [0, 38, 63, 0, 38, 63, 0, 38, 63, 0, 38, 63,
                          255, 216, 70, 103, 87, 28, 255, 216, 70, 0, 38, 63,
                          255, 216, 70, 255, 216, 70, 255, 216, 70, 0, 38, 63,
                          255, 216, 70, 255, 216, 70, 255, 216, 70, 0, 38, 63]\<rparr>, Inr ())"
  using plot_bboxes_keeps_original [where img = 0 and h = "[PILImage (black 4 4)]" and env = demo_env
          and boxes = "[\<lparr>box_x = PyInt 0, box_y = PyInt 3, box_w = PyInt 3, box_h = PyInt 0, box_label = 0, box_score = 9 / 10\<rparr>,
            \<lparr>box_x = PyInt 1, box_y = PyInt 1, box_w = PyInt 1, box_h = PyInt 1, box_label = - 1, box_score = 1 / 2\<rparr>]"
          and lm = "[''ab'', ''a'']" and colors = None]
        demo_plot_bboxes
  by (simp add: prod_eq_iff)

theorem plot_bboxes_raises_counterexample:
  "snd (plot_bboxes demo_env [PILImage (black 4 2)] 0
          [\<lparr>box_x = PyInt 0, box_y = PyInt 3, box_w = PyInt 1, box_h = PyInt 0, box_label = 0,
            box_score = 1 / 2\<rparr>]
          [''abc''] None)
     = Inl (ValueError ''could not broadcast input array'') \<and>
   fst (plot_bboxes demo_env [PILImage (black 4 2)] 0
          [\<lparr>box_x = PyInt 0, box_y = PyInt 3, box_w = PyInt 1, box_h = PyInt 0, box_label = 0,
            box_score = 1 / 2\<rparr>]
          [''abc''] None) ! 0
     = PILImage (black 4 2) \<and>
   length (fst (plot_bboxes demo_env [PILImage (black 4 2)] 0
          [\<lparr>box_x = PyInt 0, box_y = PyInt 3, box_w = PyInt 1, box_h = PyInt 0, box_label = 0,
            box_score = 1 / 2\<rparr>]
          [''abc''] None))
     = 3 \<and>
   plot_bboxes demo_env [PILImage (black 4 2)] 0
       [\<lparr>box_x = PyInt 0, box_y = PyInt 0, box_w = PyInt 1, box_h = PyInt 1, box_label = 1,
         box_score = 1 / 2\<rparr>]
       [''abc''] None
     = ([PILImage (black 4 2), PILImage (black 4 2), NDArray (black 4 2)],
        Inl (IndexError ''single positional indexer is out-of-bounds''))"
  by code_simp

text \<open>
  Claim C5. The palette has 15 names; for every label string the index the hash is reduced
  to is within the palette, so the color resolved for a truthy label and a falsy color is
  a name of the palette. For every name of the palette passed as the color, \<^verbatim>\<open>add\<close> raises
  neither of the two exceptions of the color checks, whatever the other arguments; and
  with an array image, coordinates that convert and a label that passes its check, the
  call performs the drawing with the two colors of that name.
\<close>

theorem palette_closure:
  "length COLOR_NAMES = 15 \<and> color_index s < length COLOR_NAMES \<and>
   COLOR_NAMES ! color_index s \<in> set COLOR_NAMES \<and>
   (truthy label \<and> \<not> truthy color \<longrightarrow>
      (\<exists>n. resolve_color label color = PyStr n \<and> n \<in> set COLOR_NAMES)) \<and>
   (name \<in> set COLOR_NAMES \<longrightarrow>
      (\<forall>e. snd (add env h img left top' right bottom label (PyStr name)) = Inl e \<longrightarrow>
           \<not> color_error e) \<and>
      (ndarray_at h img = Some (r, a) \<and> to_ints env left top' right bottom = Inr (l, t, rt, b) \<and>
       \<not> (truthy label \<and> \<not> is_str label) \<longrightarrow>
         (\<exists>c ct. map_of COLOR_NAME_TO_RGB name = Some (c, ct) \<and>
            add env h img left top' right bottom label (PyStr name)
              = (h[r := NDArray (fst (draw env a l t rt b label (rgb_to_bgr c) (rgb_to_bgr ct)))],
                 snd (draw env a l t rt b label (rgb_to_bgr c) (rgb_to_bgr ct))))))"
proof -
  have len: "length COLOR_NAMES = 15"
    by (simp add: COLOR_NAMES_eq)
  have idx: "color_index s < length COLOR_NAMES" for s
    by (rule color_index_less)
  have auto_color: "\<exists>n. resolve_color label color = PyStr n \<and> n \<in> set COLOR_NAMES"
    if "truthy label \<and> \<not> truthy color"
    using that idx [of "str_of label"] by (simp add: resolve_color_auto)
  have no_error: "\<not> color_error e"
    if name: "name \<in> set COLOR_NAMES"
      and e: "snd (add env h img left top' right bottom label (PyStr name)) = Inl e" for e
  proof (cases "ndarray_at h img")
    case None
    with e show ?thesis by (auto simp: add_not_array color_error_def)
  next
    case (Some p)
    then obtain r a where at: "ndarray_at h img = Some (r, a)" by (cases p) auto
    with e have "add_core env a left top' right bottom label (PyStr name)
        = (fst (add_core env a left top' right bottom label (PyStr name)), Inl e)"
      by (simp add: add_unfold prod_eq_iff)
    with name show ?thesis by (rule add_core_explicit_color_error)
  qed
  have draws: "\<exists>c ct. map_of COLOR_NAME_TO_RGB name = Some (c, ct) \<and>
            add env h img left top' right bottom label (PyStr name)
              = (h[r := NDArray (fst (draw env a l t rt b label (rgb_to_bgr c) (rgb_to_bgr ct)))],
                 snd (draw env a l t rt b label (rgb_to_bgr c) (rgb_to_bgr ct)))"
    if name: "name \<in> set COLOR_NAMES"
      and valid: "ndarray_at h img = Some (r, a) \<and> to_ints env left top' right bottom = Inr (l, t, rt, b) \<and>
       \<not> (truthy label \<and> \<not> is_str label)"
  proof -
    from name obtain c ct where look: "map_of COLOR_NAME_TO_RGB name = Some (c, ct)"
      using palette_lookup by blast
    with name valid show ?thesis
      by (auto simp: add_unfold add_core_explicit_color)
  qed
  from len idx auto_color no_error draws show ?thesis
    by (simp add: idx)
qed

theorem palette_closure_witness:
  "truthy (PyStr ''car'') \<and> \<not> truthy PyNone \<and>
   resolve_color (PyStr ''car'') PyNone = PyStr ''green'' \<and> ''green'' \<in> set COLOR_NAMES \<and>
   ''teal'' \<in> set COLOR_NAMES \<and>
   ndarray_at [NDArray (black 4 4)] (Ref 0) = Some (0, black 4 4) \<and>
   to_ints demo_env (PyInt 0) (PyInt 3) (PyInt 3) (PyInt 3) = Inr (0, 3, 3, 3) \<and>
   \<not> (truthy (PyStr ''ab'') \<and> \<not> is_str (PyStr ''ab'')) \<and>
   map_of COLOR_NAME_TO_RGB ''teal'' = Some ((15, 205, 202), (0, 0, 0)) \<and>
   snd (draw demo_env (black 4 4) 0 3 3 3 (PyStr ''ab'') [15, 205, 202] [0, 0, 0]) = Inr (Imm PyNone)"
  using palette_closure [where s = "''car''" and label = "PyStr ''car''" and color = PyNone]
        palette_closure [where name = "''teal''" and env = demo_env and h = "[NDArray (black 4 4)]"
          and img = "Ref 0" and left = "PyInt 0" and top' = "PyInt 3" and right = "PyInt 3"
          and bottom = "PyInt 3" and label = "PyStr ''ab''" and r = 0 and a = "black 4 4"
          and l = 0 and t = 3 and rt = 3 and b = 3]
        demo_labelled_box car_index
  by (simp add: ndarray_at_def to_ints_def COLOR_NAMES_eq resolve_color_def color_index_def
        length_palette COLOR_NAME_TO_RGB_def rgb_to_bgr_def)

text \<open>
  Claim C6, as amended. \<^verbatim>\<open>add\<close> raises the \<^verbatim>\<open>TypeError\<close> of the image when the image is not
  a numpy array; a \<^verbatim>\<open>TypeError\<close> when \<^verbatim>\<open>int()\<close> rejects a coordinate and no coordinate is an
  infinite float; the \<^verbatim>\<open>TypeError\<close> of the label when the label is truthy and not a
  string; the \<^verbatim>\<open>TypeError\<close> of the color when the resolved color is not a string; and the
  \<^verbatim>\<open>ValueError\<close> of the color when the resolved color is a string that is no palette name.
  In each of these cases, and whenever a coordinate is rejected, the heap after the call
  is the heap before it: nothing was painted.
\<close>

theorem add_rejects_before_drawing:
  "(ndarray_at h img = None \<longrightarrow>
      add env h img left top' right bottom label color
        = (h, Inl (TypeError '''image' parameter must be a numpy.ndarray''))) \<and>
   (ndarray_at h img \<noteq> None \<longrightarrow>
      ((\<exists>c \<in> set [left, top', right, bottom]. \<exists>e. py_int (str_to_int env) c = Inl e) \<longrightarrow>
         (\<exists>e. add env h img left top' right bottom label color = (h, Inl e) \<and>
              ((\<forall>c \<in> set [left, top', right, bottom]. c \<noteq> PyFloat PosInf \<and> c \<noteq> PyFloat NegInf) \<longrightarrow>
               (\<exists>m. e = TypeError m)))) \<and>
      ((\<exists>q. to_ints env left top' right bottom = Inr q) \<longrightarrow>
         (truthy label \<and> \<not> is_str label \<longrightarrow>
            add env h img left top' right bottom label color
              = (h, Inl (TypeError '''label' must be a str''))) \<and>
         (\<not> (truthy label \<and> \<not> is_str label) \<longrightarrow>
            (\<not> is_str (resolve_color label color) \<longrightarrow>
               add env h img left top' right bottom label color
                 = (h, Inl (TypeError '''color' must be a str''))) \<and>
            (is_str (resolve_color label color) \<and>
             str_of (resolve_color label color) \<notin> set COLOR_NAMES \<longrightarrow>
               add env h img left top' right bottom label color
                 = (h, Inl (ValueError ('''color' must be one of '' @ join '', '' COLOR_NAMES)))))))"
proof (cases "ndarray_at h img")
  case None
  then show ?thesis by (simp add: add_not_array)
next
  case (Some p)
  then obtain r a where at: "ndarray_at h img = Some (r, a)" by (cases p) auto
  have same: "h[r := NDArray a] = h"
    using at by (rule ndarray_at_update_id)
  have coords: "\<exists>e. add env h img left top' right bottom label color = (h, Inl e) \<and>
              ((\<forall>c \<in> set [left, top', right, bottom]. c \<noteq> PyFloat PosInf \<and> c \<noteq> PyFloat NegInf) \<longrightarrow>
               (\<exists>m. e = TypeError m))"
    if "\<exists>c \<in> set [left, top', right, bottom]. \<exists>e. py_int (str_to_int env) c = Inl e"
  proof -
    from that obtain e where e: "to_ints env left top' right bottom = Inl e"
      using to_ints_fails by blast
    then have "add env h img left top' right bottom label color = (h, Inl e)"
      using at same by (simp add: add_unfold add_core_def)
    with to_ints_error [OF e] show ?thesis by auto
  qed
  have rest: "(truthy label \<and> \<not> is_str label \<longrightarrow>
            add env h img left top' right bottom label color
              = (h, Inl (TypeError '''label' must be a str''))) \<and>
         (\<not> (truthy label \<and> \<not> is_str label) \<longrightarrow>
            (\<not> is_str (resolve_color label color) \<longrightarrow>
               add env h img left top' right bottom label color
                 = (h, Inl (TypeError '''color' must be a str''))) \<and>
            (is_str (resolve_color label color) \<and>
             str_of (resolve_color label color) \<notin> set COLOR_NAMES \<longrightarrow>
               add env h img left top' right bottom label color
                 = (h, Inl (ValueError ('''color' must be one of '' @ join '', '' COLOR_NAMES)))))"
    if "\<exists>q. to_ints env left top' right bottom = Inr q"
  proof -
    from that obtain l t rt b where q: "to_ints env left top' right bottom = Inr (l, t, rt, b)"
      by auto
    show ?thesis
      using at same q
      by (auto simp: add_unfold add_core_def Let_def palette_lookup_None)
  qed
  from at coords rest show ?thesis by simp
qed

theorem add_rejects_before_drawing_witness:
  "add demo_env [NDArray (black 2 2)] (Imm (PyStr ''image'')) (PyInt 0) (PyInt 0) (PyInt 1) (PyInt 1)
       PyNone (PyStr ''red'')
     = ([NDArray (black 2 2)], Inl (TypeError '''image' parameter must be a numpy.ndarray'')) \<and>
   add demo_env [NDArray (black 2 2)] (Ref 0) (PyStr ''x'') (PyInt 0) (PyInt 1) (PyInt 1)
       PyNone (PyStr ''red'')
     = ([NDArray (black 2 2)], Inl (TypeError '''left', 'top', 'right' & 'bottom' must be a number'')) \<and>
   add demo_env [NDArray (black 2 2)] (Ref 0) (PyInt 0) (PyInt 0) (PyInt 1) (PyInt 1)
       (PyInt 7) (PyStr ''red'')
     = ([NDArray (black 2 2)], Inl (TypeError '''label' must be a str'')) \<and>
   add demo_env [NDArray (black 2 2)] (Ref 0) (PyInt 0) (PyInt 0) (PyInt 1) (PyInt 1)
       PyNone (PyInt 3)
     = ([NDArray (black 2 2)], Inl (TypeError '''color' must be a str'')) \<and>
   add demo_env [NDArray (black 2 2)] (Ref 0) (PyInt 0) (PyInt 0) (PyInt 1) (PyInt 1)
       PyNone (PyStr ''pink'')
     = ([NDArray (black 2 2)], Inl (ValueError ('''color' must be one of '' @ join '', '' COLOR_NAMES)))"
  using
    add_rejects_before_drawing [where h = "[NDArray (black 2 2)]" and img = "Imm (PyStr ''image'')" and env = demo_env
      and left = "PyInt 0" and top' = "PyInt 0" and right = "PyInt 1" and bottom = "PyInt 1"
      and label = PyNone and color = "PyStr ''red''"]
    add_rejects_before_drawing [where h = "[NDArray (black 2 2)]" and img = "Ref 0" and env = demo_env
      and left = "PyStr ''x''" and top' = "PyInt 0" and right = "PyInt 1" and bottom = "PyInt 1"
      and label = PyNone and color = "PyStr ''red''"]
    add_rejects_before_drawing [where h = "[NDArray (black 2 2)]" and img = "Ref 0" and env = demo_env
      and left = "PyInt 0" and top' = "PyInt 0" and right = "PyInt 1" and bottom = "PyInt 1"
      and label = "PyInt 7" and color = "PyStr ''red''"]
    add_rejects_before_drawing [where h = "[NDArray (black 2 2)]" and img = "Ref 0" and env = demo_env
      and left = "PyInt 0" and top' = "PyInt 0" and right = "PyInt 1" and bottom = "PyInt 1"
      and label = PyNone and color = "PyInt 3"]
    add_rejects_before_drawing [where h = "[NDArray (black 2 2)]" and img = "Ref 0" and env = demo_env
      and left = "PyInt 0" and top' = "PyInt 0" and right = "PyInt 1" and bottom = "PyInt 1"
      and label = PyNone and color = "PyStr ''pink''"]
    demo_bad_coordinate
  by (simp add: ndarray_at_def to_ints_def resolve_color_def COLOR_NAMES_eq demo_env_def
        demo_str_to_int_def except_ValueError_def)

theorem add_rejections_counterexample:
  "add demo_env [NDArray (black 2 2)] (Ref 0) (PyInt 0) (PyInt 0) (PyInt 1) (PyInt 1)
       (PyInt 0) (PyStr ''red'')
     = ([NDArray \<lparr>shape = [2, 2, 3], data = [255, 47, 65, 255, 47, 65, 255, 47, 65, 255, 47, 65]\<rparr>],
        Inr (Imm PyNone)) \<and>
   add demo_env [NDArray (black 2 2)] (Ref 0) (PyFloat PosInf) (PyInt 0) (PyInt 1) (PyInt 1)
       PyNone (PyStr ''red'')
     = ([NDArray (black 2 2)], Inl (OverflowError ''cannot convert float infinity to integer''))"
  by code_simp

text \<open>
  Claim C7. For every label array of shape \<open>(H, W)\<close> and the dataset "cityscapes",
  \<^verbatim>\<open>decode_segmap\<close> returns an array of shape \<open>(H, W, 3)\<close>; the pixel of a class id that is a
  key of the color mapping is the color of that id divided by 255, channel by channel, and
  the pixel of any other id is zero. The keys of the mapping, a dict, are distinct.
\<close>

theorem decode_segmap_colors:
  assumes "shape labels = [H, W]" and "distinct (map fst mapping)"
  shows "\<exists>rgb. decode_segmap mapping labels ''cityscapes'' = Inr rgb \<and>
               shape rgb = [H, W, 3] \<and> length (data rgb) = H * W * 3 \<and>
               (\<forall>i<H. \<forall>j<W. \<forall>c<3.
                  data rgb ! ((i * W + j) * 3 + c)
                    = (case map_of mapping (data labels ! (i * W + j)) of
                         None \<Rightarrow> 0
                       | Some (r, g, b) \<Rightarrow> of_int ([r, g, b] ! c) / 255))"
proof -
  let ?zeros = "\<lparr>shape = [H, W, 3], data = replicate (H * W * 3) (0::rat)\<rparr>"
  let ?rgb = "fold (segmap_step labels) mapping ?zeros"
  have dec: "decode_segmap mapping labels ''cityscapes'' = Inr ?rgb"
    using assms(1) by (simp add: decode_segmap_def)
  have sh: "shape ?rgb = [H, W, 3] \<and> length (data ?rgb) = H * W * 3"
    using segmap_fold_shape [of labels mapping ?zeros] by simp
  have px: "data ?rgb ! ((i * W + j) * 3 + c)
              = (case map_of mapping (data labels ! (i * W + j)) of
                   None \<Rightarrow> 0
                 | Some (r, g, b) \<Rightarrow> of_int ([r, g, b] ! c) / 255)"
    if "i < H" and "j < W" and "c < 3" for i j c
  proof -
    have lt: "(i * W + j) * 3 + c < H * W * 3"
      using that by (rule flat_index3_less)
    then have "(i * W + j) * 3 + c < length (data ?zeros)" by simp
    from segmap_fold_nth [OF assms(2) this that(3), of labels] lt
    show ?thesis by (simp split: option.splits)
  qed
  from dec sh px show ?thesis by blast
qed

theorem decode_segmap_colors_witness:
  "shape \<lparr>shape = [2, 2], data = [1, 2, 7, 1 :: int]\<rparr> = [2, 2] \<and>
   distinct (map fst [(1 :: int, (255 :: int, 0 :: int, 51 :: int)), (2, (0, 102, 0))]) \<and>
   decode_segmap [(1, (255, 0, 51)), (2, (0, 102, 0))] \<lparr>shape = [2, 2], data = [1, 2, 7, 1]\<rparr> ''cityscapes''
     = Inr \<lparr>shape = [2, 2, 3], data = [1, 0, 1 / 5, 0, 2 / 5, 0, 0, 0, 0, 1, 0, 1 / 5]\<rparr>"
  using decode_segmap_colors [where labels = "\<lparr>shape = [2, 2], data = [1, 2, 7, 1]\<rparr>"
          and H = 2 and W = 2 and mapping = "[(1, (255, 0, 51)), (2, (0, 102, 0))]"] demo_segmap
  by simp

text \<open>
  Claim C8. For every glyph mask of \<open>h\<close> rows and \<open>w\<close> columns, the label raster has the
  shape \<open>(h, w, 3)\<close>, and its value at row \<open>i\<close>, column \<open>j\<close> and channel \<open>c\<close> is
  \<open>background + (font - background) * mask / 255\<close>, taken with channel \<open>c\<close> of the two colors
  and the mask intensity at \<open>(i, j)\<close>. The arithmetic is that of the rationals.
\<close>

theorem label_image_interpolates:
  assumes size: "mask_size (getmask env text) = (w, h)"
    and wf: "wf_glyph (getmask env text)"
  shows "\<exists>L. get_label_image env text [f0, f1, f2] [b0, b1, b2] = Inr L \<and>
             shape L = [h, w, 3] \<and> length (data L) = h * w * 3 \<and>
             (\<forall>i<h. \<forall>j<w. \<forall>c<3.
                data L ! ((i * w + j) * 3 + c)
                  = of_int ([b0, b1, b2] ! c)
                    + (of_int ([f0, f1, f2] ! c) - of_int ([b0, b1, b2] ! c))
                      * of_int (mask_pixels (getmask env text) ! (i * w + j)) / 255)"
proof -
  from size wf have len: "length (mask_pixels (getmask env text)) = h * w"
    by (simp add: wf_glyph_def)
  let ?m = "mask_pixels (getmask env text)"
  let ?ch = "\<lambda>f b. map (\<lambda>m. of_int b + of_int ((f - b) * m) / (255::rat)) ?m"
  let ?flat = "?ch f0 b0 @ ?ch f1 b1 @ ?ch f2 b2"
  let ?L = "\<lparr>shape = [h, w, 3],
             data = map (\<lambda>n. ?flat ! (((n mod 3) * h + n div (3 * w)) * w + (n div 3) mod w))
                        [0..<h * w * 3]\<rparr>"
  let ?bw = "\<lparr>shape = [h, w], data = ?m\<rparr>"
  have cat: "concatenate [expand_dims (color_image ?bw f0 b0), expand_dims (color_image ?bw f1 b1),
                          expand_dims (color_image ?bw f2 b2)]
               = Inr \<lparr>shape = [3, h, w], data = ?flat\<rparr>"
    by (simp add: concatenate_def expand_dims_def color_image_def)
  have L: "get_label_image env text [f0, f1, f2] [b0, b1, b2] = Inr ?L"
    using size len by (simp add: get_label_image_def Let_def cat transpose_120_def)
  have elem: "data ?L ! ((i * w + j) * 3 + c)
                  = of_int ([b0, b1, b2] ! c)
                    + (of_int ([f0, f1, f2] ! c) - of_int ([b0, b1, b2] ! c))
                      * of_int (?m ! (i * w + j)) / 255"
    if "i < h" and "j < w" and "c < 3" for i j c
  proof -
    have lt: "(i * w + j) * 3 + c < h * w * 3"
      using that by (rule flat_index3_less)
    have p: "i * w + j < h * w"
      using that(1,2) by (rule flat_index_less)
    have src: "(((i * w + j) * 3 + c) mod 3 * h + ((i * w + j) * 3 + c) div (3 * w)) * w
                 + (((i * w + j) * 3 + c) div 3) mod w
               = c * (h * w) + (i * w + j)"
    proof -
      have m: "((i * w + j) * 3 + c) mod 3 = c"
        using that(3) by (rule flat_index3_channel)
      have r: "((i * w + j) * 3 + c) div (3 * w) = i"
        using that(3,2) by (rule flat_index3_row)
      have cl: "(((i * w + j) * 3 + c) div 3) mod w = j"
        using that(3,2) by (rule flat_index3_column)
      have "(c * h + i) * w + j = c * (h * w) + (i * w + j)"
        by (simp add: algebra_simps)
      then show ?thesis by (simp only: m r cl)
    qed
    have "data ?L ! ((i * w + j) * 3 + c) = ?flat ! (c * (h * w) + (i * w + j))"
      using lt src by (simp del: upt_Suc)
    also have "\<dots> = of_int ([b0, b1, b2] ! c)
                    + (of_int ([f0, f1, f2] ! c) - of_int ([b0, b1, b2] ! c))
                      * of_int (?m ! (i * w + j)) / 255"
    proof -
      from that(3) consider "c = 0" | "c = 1" | "c = 2" by linarith
      then show ?thesis
        using p len by cases (simp_all add: nth_append algebra_simps)
    qed
    finally show ?thesis .
  qed
  have "shape ?L = [h, w, 3] \<and> length (data ?L) = h * w * 3"
    by simp
  with L elem show ?thesis
    by (intro exI [of _ ?L]) (simp del: upt_Suc)
qed

theorem label_image_interpolates_witness:
  "mask_size (getmask (demo_env\<lparr>getmask := \<lambda>t. \<lparr>mask_size = (2, 1), mask_pixels = [128, 51]\<rparr>\<rparr>) ''ab'')
     = (2, 1) \<and>
   wf_glyph (getmask (demo_env\<lparr>getmask := \<lambda>t. \<lparr>mask_size = (2, 1), mask_pixels = [128, 51]\<rparr>\<rparr>) ''ab'') \<and>
   get_label_image (demo_env\<lparr>getmask := \<lambda>t. \<lparr>mask_size = (2, 1), mask_pixels = [128, 51]\<rparr>\<rparr>)
       ''ab'' [255, 20, 0] [0, 10, 0]
     = Inr \<lparr>shape = [1, 2, 3], data = [128, 766 / 51, 0, 51, 12, 0]\<rparr>"
  using label_image_interpolates
          [where env = "demo_env\<lparr>getmask := \<lambda>t. \<lparr>mask_size = (2, 1), mask_pixels = [128, 51]\<rparr>\<rparr>"
             and ?text = "''ab''" and w = 2 and h = 1 and ?f0.0 = 255 and ?f1.0 = 20 and ?f2.0 = 0
             and ?b0.0 = 0 and ?b1.0 = 10 and ?b2.0 = 0]
        demo_label_image
  by (simp add: wf_glyph_def)

text \<open>
  Claim C9, as amended. For every call of \<^verbatim>\<open>add\<close> with a non-empty label that returns, on an
  image of three channels and for a box whose top is not negative: the pixels of the image
  inside the region of the raster hold the raster, cast to \<^verbatim>\<open>uint8\<close>; the other pixels of the
  filled rectangle hold the box color; the rest is as the outline left it. The region of
  the raster starts one column right of the rectangle's left column and ends one column
  left of its right column. In the default placement it starts one row below the
  rectangle's top row and ends one row above its bottom row. In the flipped placement it
  starts on the rectangle's top row and leaves two rows below it.
\<close>

theorem label_raster_placement:
  assumes ret: "add env h (Ref r) left0 top0 right0 bottom0 (PyStr text) color = (h', Inr v)"
    and nonempty: "text \<noteq> []"
    and arr: "h ! r = NDArray a" and sh: "shape a = [H, W, 3]" and wf: "wf_array a"
    and conv: "to_ints env left0 top0 right0 bottom0 = Inr (left, top', right, bottom)"
    and top: "0 \<le> top'"
  shows "\<exists>fg tx a1 L lh lw a'.
           map_of COLOR_NAME_TO_RGB (str_of (resolve_color (PyStr text) color)) = Some (fg, tx) \<and>
           cv2_rectangle env a (left, top') (right, bottom) (rgb_to_bgr fg) 15 = Inr a1 \<and>
           get_label_image env text (rgb_to_bgr tx) (rgb_to_bgr fg) = Inr L \<and>
           shape L = [lh, lw, 3] \<and> h' ! r = NDArray a' \<and>
           label_left (label_geometry (int W) left top' (int lh) (int lw))
             = rectangle_left (label_geometry (int W) left top' (int lh) (int lw)) + 1 \<and>
           label_right (label_geometry (int W) left top' (int lh) (int lw))
             = rectangle_right (label_geometry (int W) left top' (int lh) (int lw)) \<and>
           (1 + int lh \<le> top' \<longrightarrow>
              label_top (label_geometry (int W) left top' (int lh) (int lw))
                = rectangle_top (label_geometry (int W) left top' (int lh) (int lw)) + 1 \<and>
              label_bottom (label_geometry (int W) left top' (int lh) (int lw))
                = rectangle_bottom (label_geometry (int W) left top' (int lh) (int lw))) \<and>
           (top' < 1 + int lh \<longrightarrow>
              label_top (label_geometry (int W) left top' (int lh) (int lw))
                = rectangle_top (label_geometry (int W) left top' (int lh) (int lw)) \<and>
              label_bottom (label_geometry (int W) left top' (int lh) (int lw))
                = rectangle_bottom (label_geometry (int W) left top' (int lh) (int lw)) - 1) \<and>
           (\<forall>i<H. \<forall>j<W. \<forall>c<3.
              data a' ! ((i * W + j) * 3 + c)
                = (if label_top (label_geometry (int W) left top' (int lh) (int lw)) \<le> int i \<and>
                      int i < label_bottom (label_geometry (int W) left top' (int lh) (int lw)) \<and>
                      label_left (label_geometry (int W) left top' (int lh) (int lw)) \<le> int j \<and>
                      int j < label_right (label_geometry (int W) left top' (int lh) (int lw))
                   then to_uint8 (data L !
                          (((i - nat (label_top (label_geometry (int W) left top' (int lh) (int lw)))) * lw
                            + (j - nat (label_left (label_geometry (int W) left top' (int lh) (int lw))))) * 3
                           + c))
                   else if rectangle_top (label_geometry (int W) left top' (int lh) (int lw)) \<le> int i \<and>
                           int i \<le> rectangle_bottom (label_geometry (int W) left top' (int lh) (int lw)) \<and>
                           rectangle_left (label_geometry (int W) left top' (int lh) (int lw)) \<le> int j \<and>
                           int j \<le> rectangle_right (label_geometry (int W) left top' (int lh) (int lw))
                   then word_of_int (rgb_to_bgr fg ! c)
                   else data a1 ! ((i * W + j) * 3 + c)))"
proof -
  from ret have at: "ndarray_at h (Ref r) = Some (r, a)"
    using arr by (cases "r < length h") (auto simp: add_def ndarray_at_def)
  from wf sh have len: "length (data a) = H * W * 3"
    by (simp add: wf_array_def)
  obtain a' where core: "add_core env a left0 top0 right0 bottom0 (PyStr text) color = (a', Inr v)"
    and h': "h' = h[r := NDArray a']"
    using ret at by (auto simp: add_unfold prod_eq_iff)
  from at have "r < length h" by (auto dest: ndarray_at_SomeD)
  with h' have cell: "h' ! r = NDArray a'" by simp
  from add_core_labelled [OF core conv] obtain fg tx
    where look: "map_of COLOR_NAME_TO_RGB (str_of (resolve_color (PyStr text) color)) = Some (fg, tx)"
      and drw: "draw env a left top' right bottom (PyStr text) (rgb_to_bgr fg) (rgb_to_bgr tx)
                  = (a', Inr v)"
    by blast
  from nonempty have lab: "truthy (PyStr text)" by simp
  from draw_labelled [OF drw lab sh] obtain a1 L lh lw n a2
    where a1: "cv2_rectangle env a (left, top') (right, bottom) (rgb_to_bgr fg) 15 = Inr a1"
      and L: "get_label_image env text (rgb_to_bgr tx) (rgb_to_bgr fg) = Inr L"
      and shL0: "shape L = [lh, lw, n]"
      and a2: "cv2_rectangle env a1
               (rectangle_left (label_geometry (int W) left top' (int lh) (int lw)),
                rectangle_top (label_geometry (int W) left top' (int lh) (int lw)))
               (rectangle_right (label_geometry (int W) left top' (int lh) (int lw)),
                rectangle_bottom (label_geometry (int W) left top' (int lh) (int lw)))
               (rgb_to_bgr fg) (- 1) = Inr a2"
      and a3: "setitem a2 (label_top (label_geometry (int W) left top' (int lh) (int lw)))
               (label_bottom (label_geometry (int W) left top' (int lh) (int lw)))
               (label_left (label_geometry (int W) left top' (int lh) (int lw)))
               (label_right (label_geometry (int W) left top' (int lh) (int lw))) L = Inr a'"
    by auto
  let ?g = "label_geometry (int W) left top' (int lh) (int lw)"
  note geo = label_geometry_facts [where lh = "int lh" and lw = "int lw" and W = "int W"
      and left = left and top' = top', simplified]
  obtain f0 f1 f2 where fgl: "rgb_to_bgr fg = [f0, f1, f2]"
    using rgb_to_bgr_list by blast
  obtain t0 t1 t2 where txl: "rgb_to_bgr tx = [t0, t1, t2]"
    using rgb_to_bgr_list by blast
  from L have "shape L = [snd (mask_size (getmask env text)), fst (mask_size (getmask env text)), 3]"
    unfolding fgl txl by (rule get_label_image_shape)
  with shL0 have shL: "shape L = [lh, lw, 3]" by simp
  have sh1: "shape a1 = [H, W, 3]" and len1: "length (data a1) = H * W * 3"
    using cv2_rectangle_shape [OF a1] sh len by simp_all
  have sh2: "shape a2 = [H, W, 3]" and len2: "length (data a2) = H * W * 3"
    using cv2_rectangle_shape [OF a2] sh1 len1 by simp_all
  have px: "data a' ! ((i * W + j) * 3 + c)
                = (if label_top ?g \<le> int i \<and> int i < label_bottom ?g \<and>
                      label_left ?g \<le> int j \<and> int j < label_right ?g
                   then to_uint8 (data L !
                          (((i - nat (label_top ?g)) * lw + (j - nat (label_left ?g))) * 3 + c))
                   else if rectangle_top ?g \<le> int i \<and> int i \<le> rectangle_bottom ?g \<and>
                           rectangle_left ?g \<le> int j \<and> int j \<le> rectangle_right ?g
                   then word_of_int (rgb_to_bgr fg ! c)
                   else data a1 ! ((i * W + j) * 3 + c))"
    if "i < H" and "j < W" and "c < 3" for i j c
  proof -
    have "0 \<le> label_top ?g" using geo(10) top by simp
    moreover have "0 \<le> label_left ?g" using geo(1,5) by simp
    ultimately have blit: "data a' ! ((i * W + j) * 3 + c)
           = (if label_top ?g \<le> int i \<and> int i < label_bottom ?g \<and>
                 label_left ?g \<le> int j \<and> int j < label_right ?g
              then to_uint8 (data L !
                     (((i - nat (label_top ?g)) * lw + (j - nat (label_left ?g))) * 3 + c))
              else data a2 ! ((i * W + j) * 3 + c))"
      using setitem_nth [OF a3 sh2 len2 shL _ _ geo(4) geo(2) that] by simp
    have fill: "data a2 ! ((i * W + j) * 3 + c)
           = (if rectangle_top ?g \<le> int i \<and> int i \<le> rectangle_bottom ?g \<and>
                 rectangle_left ?g \<le> int j \<and> int j \<le> rectangle_right ?g
              then word_of_int (rgb_to_bgr fg ! c)
              else data a1 ! ((i * W + j) * 3 + c))"
      using cv2_rectangle_nth [OF a2 sh1 len1 _ that] geo(6,7)
      by (auto simp: fgl filled_box_def)
    from blit fill show ?thesis by simp
  qed
  from look a1 L shL cell geo(1,3,8,9) px show ?thesis
    by blast
qed

theorem label_raster_placement_witness:
  "''ab'' \<noteq> [] \<and> [NDArray (black 6 8)] ! 0 = NDArray (black 6 8) \<and>
   shape (black 6 8) = [6, 8, 3] \<and> wf_array (black 6 8) \<and>
   to_ints demo_env (PyInt 1) (PyInt 1) (PyInt 5) (PyInt 5) = Inr (1, 1, 5, 5) \<and> (0::int) \<le> 1 \<and>
   add demo_env [NDArray (black 6 8)] (Ref 0) (PyInt 1) (PyInt 1) (PyInt 5) (PyInt 5)
       (PyStr ''ab'') (PyStr ''red'')
     = ([NDArray \<lparr>shape = [6, 8, 3],
                  data = [0, 0, 0, 0, 0, 0, 0, 0, 0, 0, 0, 0, 0, 0, 0, 0, 0, 0, 0, 0, 0, 0, 0, 0,
                          255, 47, 65, 131, 0, 17, 131, 0, 17, 255, 47, 65,
                          255, 47, 65, 255, 47, 65, 0, 0, 0, 0, 0, 0,
                          255, 47, 65, 255, 47, 65, 255, 47, 65, 255, 47, 65,
                          0, 0, 0, 255, 47, 65, 0, 0, 0, 0, 0, 0,
                          255, 47, 65, 255, 47, 65, 255, 47, 65, 255, 47, 65,
                          0, 0, 0, 255, 47, 65, 0, 0, 0, 0, 0, 0,
                          255, 47, 65, 255, 47, 65, 255, 47, 65, 255, 47, 65,
                          0, 0, 0, 255, 47, 65, 0, 0, 0, 0, 0, 0,
                          0, 0, 0, 255, 47, 65, 255, 47, 65, 255, 47, 65,
                          255, 47, 65, 255, 47, 65, 0, 0, 0, 0, 0, 0]\<rparr>],
        Inr (Imm PyNone)) \<and>
   (\<exists>L lh lw. get_label_image demo_env ''ab'' [131, 0, 17] [255, 47, 65] = Inr L \<and>
               shape L = [lh, lw, 3])"
  using label_raster_placement [where env = demo_env and h = "[NDArray (black 6 8)]" and r = 0
          and ?left0.0 = "PyInt 1" and ?top0.0 = "PyInt 1" and ?right0.0 = "PyInt 5"
          and ?bottom0.0 = "PyInt 5" and ?text = "''ab''" and color = "PyStr ''red''"
          and h' = "[NDArray \<lparr>shape = [6, 8, 3],
                  data = [0, 0, 0, 0, 0, 0, 0, 0, 0, 0, 0, 0, 0, 0, 0, 0, 0, 0, 0, 0, 0, 0, 0, 0,
                          255, 47, 65, 131, 0, 17, 131, 0, 17, 255, 47, 65,
                          255, 47, 65, 255, 47, 65, 0, 0, 0, 0, 0, 0,
                          255, 47, 65, 255, 47, 65, 255, 47, 65, 255, 47, 65,
                          0, 0, 0, 255, 47, 65, 0, 0, 0, 0, 0, 0,
                          255, 47, 65, 255, 47, 65, 255, 47, 65, 255, 47, 65,
                          0, 0, 0, 255, 47, 65, 0, 0, 0, 0, 0, 0,
                          255, 47, 65, 255, 47, 65, 255, 47, 65, 255, 47, 65,
                          0, 0, 0, 255, 47, 65, 0, 0, 0, 0, 0, 0,
                          0, 0, 0, 255, 47, 65, 255, 47, 65, 255, 47, 65,
                          255, 47, 65, 255, 47, 65, 0, 0, 0, 0, 0, 0]\<rparr>]"
          and v = "Imm PyNone" and a = "black 6 8" and H = 6 and W = 8
          and left = 1 and top' = 1 and right = 5 and bottom = 5]
        demo_flipped_label
  by (auto simp: black_def wf_array_def to_ints_def resolve_color_def COLOR_NAME_TO_RGB_def
        rgb_to_bgr_def)

theorem label_inset_counterexample:
  "add demo_env [NDArray (black 6 8)] (Ref 0) (PyInt 1) (PyInt 1) (PyInt 5) (PyInt 5)
       (PyStr ''ab'') (PyStr ''red'')
     = ([NDArray \<lparr>shape = [6, 8, 3],
                  data = [0, 0, 0, 0, 0, 0, 0, 0, 0, 0, 0, 0, 0, 0, 0, 0, 0, 0, 0, 0, 0, 0, 0, 0,
                          255, 47, 65, 131, 0, 17, 131, 0, 17, 255, 47, 65,
                          255, 47, 65, 255, 47, 65, 0, 0, 0, 0, 0, 0,
                          255, 47, 65, 255, 47, 65, 255, 47, 65, 255, 47, 65,
                          0, 0, 0, 255, 47, 65, 0, 0, 0, 0, 0, 0,
                          255, 47, 65, 255, 47, 65, 255, 47, 65, 255, 47, 65,
                          0, 0, 0, 255, 47, 65, 0, 0, 0, 0, 0, 0,
                          255, 47, 65, 255, 47, 65, 255, 47, 65, 255, 47, 65,
                          0, 0, 0, 255, 47, 65, 0, 0, 0, 0, 0, 0,
                          0, 0, 0, 255, 47, 65, 255, 47, 65, 255, 47, 65,
                          255, 47, 65, 255, 47, 65, 0, 0, 0, 0, 0, 0]\<rparr>],
        Inr (Imm PyNone)) \<and>
   rectangle_top (label_geometry 8 1 1 2 2) = 1 \<and> label_top (label_geometry 8 1 1 2 2) = 1 \<and>
   label_bottom (label_geometry 8 1 1 2 2) = 3 \<and> rectangle_bottom (label_geometry 8 1 1 2 2) = 4 \<and>
   label_top (label_geometry 8 1 1 2 2) \<noteq> rectangle_top (label_geometry 8 1 1 2 2) + 1"
  using demo_flipped_label by (simp add: label_geometry_def)




end
